theory Spec2Isabelle
  imports Main "HOL-Library.Char_ord" "HOL-Library.List_Lexorder" "HOL-Library.AList"
    "HOL-Library.Multiset"
begin

text \<open>
  A model of the thread archiver x-thread-dl: the selection of the best video variant
  of a tweet record (\<open>Scraper.extract_video_url\<close>), the two fetches of the remote client
  (\<open>Scraper.fetch_tweet\<close>, \<open>Scraper.fetch_tweet_replies\<close>) and the persistence of a
  parsed thread (\<open>video_downloader.py\<close>). The first part translates the source, the
  second gives the notions that the statements need, the third proves the properties.

  A Python function that raises returns \<open>Inl\<close> of the exception here. A function with
  effects takes the state it works on and returns it with its result; the collaborators
  that are not part of the sources (the scraping backend, the file system, the media
  engine) are parameters.
\<close>

section \<open>Python values and exceptions\<close>

text \<open>
  The records that the scraping backend returns are parsed JSON: \<open>None\<close>, booleans,
  integers, strings, lists and dictionaries with string keys. A dictionary is an
  association list, in insertion order. Floating point numbers are left out of the model.
\<close>

datatype pyval =
    PNone
  | PBool bool
  | PInt int
  | PStr string
  | PList "pyval list"
  | PDict "(string \<times> pyval) list"

text \<open>The built-in exceptions that the dynamic operations below can raise.\<close>

datatype py_exn = TypeError | AttributeError | KeyError | IndexError

text \<open>
  The exceptions of \<open>exceptions.py\<close> that the modelled functions raise. The argument is
  the message, cut where the source interpolates a value.
\<close>

datatype error =
    ScrapingError string
  | ValidationError string
  | VideoDownloadError string

type_synonym pydict = "(string \<times> pyval) list"

text \<open>Truthiness, as \<open>if x:\<close> and \<open>not x\<close> test it.\<close>

fun py_truthy :: "pyval \<Rightarrow> bool" where
  "py_truthy PNone = False"
| "py_truthy (PBool b) = b"
| "py_truthy (PInt n) = (n \<noteq> 0)"
| "py_truthy (PStr s) = (s \<noteq> [])"
| "py_truthy (PList xs) = (xs \<noteq> [])"
| "py_truthy (PDict kvs) = (kvs \<noteq> [])"

fun is_dict :: "pyval \<Rightarrow> bool" where
  "is_dict (PDict kvs) = True"
| "is_dict v = False"

text \<open>\<open>d.get(k, default)\<close> on a dictionary.\<close>

definition dict_get :: "pydict \<Rightarrow> string \<Rightarrow> pyval \<Rightarrow> pyval" where
  "dict_get d k dflt = (case map_of d k of None \<Rightarrow> dflt | Some v \<Rightarrow> v)"

text \<open>\<open>k in s\<close> for strings: \<open>k\<close> occurs in \<open>s\<close> as a contiguous piece.\<close>

fun str_contains :: "string \<Rightarrow> string \<Rightarrow> bool" where
  "str_contains k [] = (k = [])"
| "str_contains k (c # cs) = (take (length k) (c # cs) = k \<or> str_contains k cs)"

text \<open>
  \<open>k in x\<close> for a string \<open>k\<close>: key membership for a dictionary, substring test for a
  string, element membership for a list, \<open>TypeError\<close> for everything else.
\<close>

fun py_contains :: "string \<Rightarrow> pyval \<Rightarrow> py_exn + bool" where
  "py_contains k (PDict kvs) = Inr (map_of kvs k \<noteq> None)"
| "py_contains k (PStr s) = Inr (str_contains k s)"
| "py_contains k (PList xs) = Inr (PStr k \<in> set xs)"
| "py_contains k v = Inl TypeError"

text \<open>
  \<open>x[k]\<close> for a string \<open>k\<close>: a lookup in a dictionary (\<open>KeyError\<close> when the key is
  missing); strings and lists take integer indices only, the other values are not
  subscriptable.
\<close>

fun py_subscript :: "pyval \<Rightarrow> string \<Rightarrow> py_exn + pyval" where
  "py_subscript (PDict kvs) k = (case map_of kvs k of None \<Rightarrow> Inl KeyError | Some v \<Rightarrow> Inr v)"
| "py_subscript v k = Inl TypeError"

fun py_len :: "pyval \<Rightarrow> py_exn + nat" where
  "py_len (PList xs) = Inr (length xs)"
| "py_len (PStr s) = Inr (length s)"
| "py_len (PDict kvs) = Inr (length kvs)"
| "py_len v = Inl TypeError"

text \<open>
  The items a \<open>for\<close> loop sees: the elements of a list, the characters of a string,
  the keys of a dictionary.
\<close>

fun py_iter :: "pyval \<Rightarrow> py_exn + pyval list" where
  "py_iter (PList xs) = Inr xs"
| "py_iter (PStr s) = Inr (map (\<lambda>c. PStr [c]) s)"
| "py_iter (PDict kvs) = Inr (map (\<lambda>kv. PStr (fst kv)) kvs)"
| "py_iter v = Inl TypeError"

text \<open>
  Calling \<open>.get\<close> on every item in turn, as the logging loops of \<open>extract_video_url\<close>
  do: the first item that is not a dictionary raises \<open>AttributeError\<close>.
\<close>

fun as_dicts :: "pyval list \<Rightarrow> py_exn + pydict list" where
  "as_dicts [] = Inr []"
| "as_dicts (PDict kvs # vs) =
     (case as_dicts vs of Inl e \<Rightarrow> Inl e | Inr ds \<Rightarrow> Inr (kvs # ds))"
| "as_dicts (v # vs) = Inl AttributeError"

section \<open>Sorting by bitrate\<close>

text \<open>
  \<open>xs.sort(key=lambda x: x.get('bitrate', 0), reverse=True)\<close>. The sort is stable;
  with \<open>reverse=True\<close> CPython reverses the list, sorts it in ascending order and
  reverses it again, so that items with equal keys keep their order.

  A list of at most one item is sorted without a comparison. Otherwise the keys are
  compared: numbers (integers and booleans) with numbers and strings with strings;
  \<open>None\<close>, a dictionary or keys of different kinds raise \<open>TypeError\<close>. List-valued keys,
  which CPython compares item by item, are treated like the latter.
\<close>

definition bitrate_key :: "pydict \<Rightarrow> pyval" where
  "bitrate_key x = dict_get x ''bitrate'' (PInt 0)"

fun is_num :: "pyval \<Rightarrow> bool" where
  "is_num (PInt n) = True"
| "is_num (PBool b) = True"
| "is_num v = False"

fun num_of :: "pyval \<Rightarrow> int" where
  "num_of (PInt n) = n"
| "num_of (PBool b) = (if b then 1 else 0)"
| "num_of v = 0"

fun is_str :: "pyval \<Rightarrow> bool" where
  "is_str (PStr s) = True"
| "is_str v = False"

fun str_of :: "pyval \<Rightarrow> string" where
  "str_of (PStr s) = s"
| "str_of v = []"

definition sort_reverse :: "('a \<Rightarrow> 'k::linorder) \<Rightarrow> 'a list \<Rightarrow> 'a list" where
  "sort_reverse f xs = rev (sort_key f (rev xs))"

definition sort_by_bitrate :: "pydict list \<Rightarrow> py_exn + pydict list" where
  "sort_by_bitrate xs =
     (if length xs \<le> 1 then Inr xs
      else if list_all is_num (map bitrate_key xs)
        then Inr (sort_reverse (\<lambda>x. num_of (bitrate_key x)) xs)
      else if list_all is_str (map bitrate_key xs)
        then Inr (sort_reverse (\<lambda>x. str_of (bitrate_key x)) xs)
      else Inl TypeError)"

section \<open>The variant selector: \<open>Scraper.extract_video_url\<close>\<close>

text \<open>
  The source runs the same selection twice, on the primary shape (\<open>video.variants\<close>,
  keys \<open>type\<close> and \<open>src\<close>) and on the secondary shape (\<open>mediaDetails\<close>, keys
  \<open>content_type\<close> and \<open>url\<close>). \<open>select_variants\<close> is that block with the two key names
  as parameters. It yields \<open>Some r\<close> when the block executes \<open>return r\<close> and \<open>None\<close>
  when control leaves the block, together with the value of \<open>variants\<close> afterwards:
  \<open>variants.sort\<close> sorts the list object of the record in place, whereas
  \<open>mp4_variants\<close> is a fresh list.
\<close>

definition is_mp4 :: "string \<Rightarrow> pydict \<Rightarrow> bool" where
  "is_mp4 type_key v = (dict_get v type_key PNone = PStr ''video/mp4'')"

definition select_variants ::
  "string \<Rightarrow> string \<Rightarrow> pyval \<Rightarrow> py_exn + (pyval option \<times> pyval)" where
  "select_variants type_key url_key variants =
     (case py_len variants of Inl e \<Rightarrow> Inl e | Inr n \<Rightarrow>
      (case py_iter variants of Inl e \<Rightarrow> Inl e | Inr items \<Rightarrow>
       (case as_dicts items of Inl e \<Rightarrow> Inl e | Inr ds \<Rightarrow>
          if filter (is_mp4 type_key) ds \<noteq> [] then
            (case sort_by_bitrate (filter (is_mp4 type_key) ds) of
               Inl e \<Rightarrow> Inl e
             | Inr [] \<Rightarrow> Inl IndexError
             | Inr (best_variant # rest) \<Rightarrow>
                 Inr (Some (dict_get best_variant url_key PNone), variants))
          else if py_truthy variants then
            (case variants of
               PList vs \<Rightarrow>
                 (case sort_by_bitrate ds of
                    Inl e \<Rightarrow> Inl e
                  | Inr [] \<Rightarrow> Inl IndexError
                  | Inr (best_variant # rest) \<Rightarrow>
                      Inr (Some (dict_get best_variant url_key PNone),
                           PList (map PDict (best_variant # rest))))
             | v \<Rightarrow> Inl AttributeError)
          else Inr (None, variants))))"

text \<open>
  Lines 243 to 266: the primary shape. The second component is the dictionary
  \<open>tweet_data\<close> after the block.
\<close>

definition extract_primary :: "pydict \<Rightarrow> py_exn + (pyval option \<times> pydict)" where
  "extract_primary td =
     (case map_of td ''video'' of
        None \<Rightarrow> Inr (None, td)
      | Some video \<Rightarrow>
          if \<not> py_truthy video then Inr (None, td)
          else
            (case py_contains ''variants'' video of
               Inl e \<Rightarrow> Inl e
             | Inr False \<Rightarrow> Inr (None, td)
             | Inr True \<Rightarrow>
                 (case video of
                    PDict vd \<Rightarrow>
                      (case py_subscript video ''variants'' of
                         Inl e \<Rightarrow> Inl e
                       | Inr variants \<Rightarrow>
                           (case select_variants ''type'' ''src'' variants of
                              Inl e \<Rightarrow> Inl e
                            | Inr (r, variants') \<Rightarrow>
                                Inr (r, AList.update ''video''
                                      (PDict (AList.update ''variants'' variants' vd)) td)))
                  | v \<Rightarrow> Inl TypeError)))"

text \<open>One iteration of the loop over \<open>mediaDetails\<close> (lines 271 to 294).\<close>

definition probe_media :: "pyval \<Rightarrow> py_exn + (pyval option \<times> pyval)" where
  "probe_media media =
     (case media of
        PDict m \<Rightarrow>
          if dict_get m ''type'' PNone = PStr ''video'' \<and> map_of m ''video_info'' \<noteq> None then
            (case py_contains ''variants'' (dict_get m ''video_info'' PNone) of
               Inl e \<Rightarrow> Inl e
             | Inr False \<Rightarrow> Inr (None, media)
             | Inr True \<Rightarrow>
                 (case dict_get m ''video_info'' PNone of
                    PDict vi \<Rightarrow>
                      (case py_subscript (PDict vi) ''variants'' of
                         Inl e \<Rightarrow> Inl e
                       | Inr variants \<Rightarrow>
                           (case select_variants ''content_type'' ''url'' variants of
                              Inl e \<Rightarrow> Inl e
                            | Inr (r, variants') \<Rightarrow>
                                Inr (r, PDict (AList.update ''video_info''
                                      (PDict (AList.update ''variants'' variants' vi)) m))))
                  | v \<Rightarrow> Inl TypeError))
          else Inr (None, media)
      | v \<Rightarrow> Inl AttributeError)"

fun media_loop :: "pyval list \<Rightarrow> py_exn + (pyval option \<times> pyval list)" where
  "media_loop [] = Inr (None, [])"
| "media_loop (media # ms) =
     (case probe_media media of
        Inl e \<Rightarrow> Inl e
      | Inr (Some r, media') \<Rightarrow> Inr (Some r, media' # ms)
      | Inr (None, media') \<Rightarrow>
          (case media_loop ms of
             Inl e \<Rightarrow> Inl e
           | Inr (r, ms') \<Rightarrow> Inr (r, media' # ms')))"

text \<open>Lines 269 to 297: the secondary shape, and the final \<open>return None\<close>.\<close>

definition extract_media_details :: "pydict \<Rightarrow> py_exn + (pyval \<times> pydict)" where
  "extract_media_details td =
     (case map_of td ''mediaDetails'' of
        None \<Rightarrow> Inr (PNone, td)
      | Some (PList ms) \<Rightarrow>
          (case media_loop ms of
             Inl e \<Rightarrow> Inl e
           | Inr (Some r, ms') \<Rightarrow> Inr (r, AList.update ''mediaDetails'' (PList ms') td)
           | Inr (None, ms') \<Rightarrow> Inr (PNone, AList.update ''mediaDetails'' (PList ms') td))
      | Some v \<Rightarrow>
          (case py_iter v of
             Inl e \<Rightarrow> Inl e
           | Inr items \<Rightarrow>
               (case media_loop items of
                  Inl e \<Rightarrow> Inl e
                | Inr (Some r, items') \<Rightarrow> Inr (r, td)
                | Inr (None, items') \<Rightarrow> Inr (PNone, td))))"

text \<open>
  The \<open>try\<close> block of \<open>extract_video_url\<close>: a \<open>ScrapingError\<close> passes, every other
  exception is wrapped into one.
\<close>

definition wrap_scraping :: "py_exn + (pyval \<times> pydict) \<Rightarrow> error + (pyval \<times> pyval)" where
  "wrap_scraping r =
     (case r of
        Inl e \<Rightarrow> Inl (ScrapingError ''Unexpected error extracting video URL from tweet data'')
      | Inr (u, td) \<Rightarrow> Inr (u, PDict td))"

text \<open>
  \<open>extract_video_url\<close> returns the value of the call together with \<open>tweet_data\<close> as the
  call leaves it. The state of \<open>tweet_data\<close> after a raise is not modelled. The logger
  calls are left out, but for the \<open>.get\<close> calls in their arguments, which raise on an
  item that is not a dictionary.
\<close>

definition extract_video_url :: "pyval \<Rightarrow> error + (pyval \<times> pyval)" where
  "extract_video_url tweet_data =
     (if \<not> py_truthy tweet_data
        then Inl (ScrapingError ''Invalid tweet data provided for video extraction'')
      else
        (case tweet_data of
           PDict td \<Rightarrow>
             (case extract_primary td of
                Inl e \<Rightarrow> wrap_scraping (Inl e)
              | Inr (Some r, td') \<Rightarrow> wrap_scraping (Inr (r, td'))
              | Inr (None, td') \<Rightarrow> wrap_scraping (extract_media_details td'))
         | v \<Rightarrow> Inl (ScrapingError ''Invalid tweet data provided for video extraction'')))"

section \<open>The remote fetch client: \<open>fetch_tweet\<close> and \<open>fetch_tweet_replies\<close>\<close>

text \<open>
  \<open>config.py\<close> is not part of the sources at hand; the two actor identifiers it
  defines are parameters.
\<close>

record config =
  TWITTER_SCRAPER_ACTOR_ID :: string
  TWITTER_REPLIES_SCRAPER_ACTOR_ID :: string

text \<open>
  The Apify client is an external collaborator. \<open>actor_call\<close> stands for
  \<open>client.actor(id).call(run_input=...)\<close> and \<open>list_items\<close> for
  \<open>client.dataset(run["defaultDatasetId"]).list_items().items\<close>; \<open>None\<close> means that the
  call raises. \<open>'r\<close> is the type of run handles.
\<close>

record 'r backend =
  actor_call :: "string \<Rightarrow> pyval \<Rightarrow> 'r option"
  list_items :: "'r \<Rightarrow> pyval list option"

datatype log_level = DEBUG | INFO | WARNING | ERROR

datatype 'r net_call = ActorCall string pyval | ListItems 'r

text \<open>
  What a call leaves behind: the requests made to the backend, in order, and the
  records handed to the logger (level and message, the message cut where the source
  interpolates a value).
\<close>

record 'r net =
  calls :: "'r net_call list"
  net_log :: "(log_level \<times> string) list"

definition net_say :: "log_level \<Rightarrow> string \<Rightarrow> 'r net \<Rightarrow> 'r net" where
  "net_say lvl msg s = s\<lparr>net_log := net_log s @ [(lvl, msg)]\<rparr>"

definition net_request :: "'r net_call \<Rightarrow> 'r net \<Rightarrow> 'r net" where
  "net_request c s = s\<lparr>calls := calls s @ [c]\<rparr>"

text \<open>
  \<open>_format_url\<close>. The \<open>ValidationError\<close> raised for an empty URL is caught by the
  function's own \<open>except Exception\<close> and raised again with another message.
\<close>

definition format_url :: "string \<Rightarrow> error + string" where
  "format_url url =
     (if url = [] then Inl (ValidationError ''Error formatting URL '')
      else if take 4 url = ''http'' then Inr url
      else Inr (''https://'' @ url))"

text \<open>
  \<open>_extract_tweet_id\<close> searches the URL for
  \<^verbatim>\<open>(?:twitter\.com|x\.com)/\w+/status/(\d+)\<close>. A slash is no word character, so the
  greedy \<^verbatim>\<open>\w+\<close> can only end where the word characters end, and the match at a
  position is decided without backtracking. Characters are bytes here: the word
  characters and digits are the ASCII ones.
\<close>

definition is_word_char :: "char \<Rightarrow> bool" where
  "is_word_char c =
     (c \<in> set ''abcdefghijklmnopqrstuvwxyzABCDEFGHIJKLMNOPQRSTUVWXYZ0123456789_'')"

definition is_digit :: "char \<Rightarrow> bool" where
  "is_digit c = (c \<in> set ''0123456789'')"

definition match_status :: "string \<Rightarrow> string option" where
  "match_status s =
     (if take 1 s = ''/'' \<and> takeWhile is_word_char (drop 1 s) \<noteq> []
         \<and> take 8 (dropWhile is_word_char (drop 1 s)) = ''/status/''
         \<and> takeWhile is_digit (drop 8 (dropWhile is_word_char (drop 1 s))) \<noteq> []
      then Some (takeWhile is_digit (drop 8 (dropWhile is_word_char (drop 1 s))))
      else None)"

definition match_here :: "string \<Rightarrow> string option" where
  "match_here s =
     (if take 11 s = ''twitter.com'' then match_status (drop 11 s)
      else if take 5 s = ''x.com'' then match_status (drop 5 s)
      else None)"

fun re_search :: "string \<Rightarrow> string option" where
  "re_search [] = None"
| "re_search (c # cs) =
     (case match_here (c # cs) of Some d \<Rightarrow> Some d | None \<Rightarrow> re_search cs)"

definition extract_tweet_id :: "string \<Rightarrow> 'r net \<Rightarrow> (error + string option) \<times> 'r net" where
  "extract_tweet_id url s =
     (if url = [] then (Inl (ValidationError ''URL must be a non-empty string''), s)
      else
        (case re_search url of
           Some d \<Rightarrow> (Inr (Some d), s)
         | None \<Rightarrow> (Inr None, net_say DEBUG ''No tweet ID found in URL: '' s)))"

definition tweet_input :: "string \<Rightarrow> pyval" where
  "tweet_input formatted_url =
     PDict [(''startUrls'', PList [PDict [(''url'', PStr formatted_url)]]),
            (''tweetsDesired'', PInt 1),
            (''addUserInfo'', PBool True),
            (''proxyConfig'', PDict [(''useApifyProxy'', PBool True)])]"

definition replies_input :: "string \<Rightarrow> int \<Rightarrow> pyval" where
  "replies_input formatted_url limit =
     PDict [(''postUrls'', PList [PStr formatted_url]), (''resultsLimit'', PInt limit)]"

text \<open>
  Running an actor and reading its dataset (the two \<open>run_in_executor\<close> calls, which
  the caller awaits one after the other). \<open>failed_run\<close> and \<open>failed_read\<close> are the
  messages of the \<open>ScrapingError\<close> that wraps an exception of the backend.
\<close>

definition run_actor ::
  "'r backend \<Rightarrow> string \<Rightarrow> pyval \<Rightarrow> string \<Rightarrow> string \<Rightarrow> 'r net
     \<Rightarrow> (error + pyval list) \<times> 'r net" where
  "run_actor be actor_id input_data failed_run failed_read s =
     (case actor_call be actor_id input_data of
        None \<Rightarrow> (Inl (ScrapingError failed_run), net_request (ActorCall actor_id input_data) s)
      | Some run \<Rightarrow>
          (case list_items be run of
             None \<Rightarrow>
               (Inl (ScrapingError failed_read),
                net_request (ListItems run) (net_request (ActorCall actor_id input_data) s))
           | Some dataset_items \<Rightarrow>
               (Inr dataset_items,
                net_request (ListItems run) (net_request (ActorCall actor_id input_data) s))))"

definition fetch_tweet ::
  "config \<Rightarrow> 'r backend \<Rightarrow> string \<Rightarrow> 'r net \<Rightarrow> (error + pyval) \<times> 'r net" where
  "fetch_tweet cfg be url s =
     (case extract_tweet_id url (net_say INFO ''Fetching tweet from URL: '' s) of
        (Inl e, s1) \<Rightarrow> (Inl e, s1)
      | (Inr None, s1) \<Rightarrow> (Inl (ValidationError ''Could not extract tweet ID from URL: ''), s1)
      | (Inr (Some tweet_id), s1) \<Rightarrow>
          (case format_url url of
             Inl e \<Rightarrow> (Inl e, s1)
           | Inr formatted_url \<Rightarrow>
               (case run_actor be (TWITTER_SCRAPER_ACTOR_ID cfg) (tweet_input formatted_url)
                       ''Failed to execute Apify actor for URL ''
                       ''Failed to retrieve dataset items for URL ''
                       (net_say INFO ''Using formatted URL: '' s1) of
                  (Inl e, s2) \<Rightarrow> (Inl e, s2)
                | (Inr [], s2) \<Rightarrow> (Inl (ScrapingError ''No tweet data found for URL: ''), s2)
                | (Inr (tweet_data # rest), s2) \<Rightarrow>
                    (Inr tweet_data, net_say INFO ''Successfully fetched tweet from URL: '' s2))))"

text \<open>
  The debugging loop at the end of \<open>fetch_tweet_replies\<close> calls \<open>reply.keys()\<close> on
  every record; a record that is not a dictionary raises \<open>AttributeError\<close>, which the
  function wraps into a \<open>ScrapingError\<close>.
\<close>

fun log_reply_keys :: "bool \<Rightarrow> pyval list \<Rightarrow> 'r net \<Rightarrow> (py_exn + unit) \<times> 'r net" where
  "log_reply_keys is_first [] s = (Inr (), s)"
| "log_reply_keys is_first (reply # rs) s =
     (if is_dict reply then
        log_reply_keys False rs
          (if is_first
           then net_say DEBUG ''Reply 0 full structure: '' (net_say DEBUG ''Reply '' s)
           else net_say DEBUG ''Reply '' s)
      else (Inl AttributeError, s))"

definition fetch_tweet_replies ::
  "config \<Rightarrow> 'r backend \<Rightarrow> string \<Rightarrow> int \<Rightarrow> 'r net \<Rightarrow> (error + pyval list) \<times> 'r net" where
  "fetch_tweet_replies cfg be url limit s =
     (if limit \<le> 0 then (Inl (ValidationError ''Reply limit must be positive, got: ''), s)
      else
        (case format_url url of
           Inl e \<Rightarrow> (Inl e, net_say INFO ''Fetching up to '' s)
         | Inr formatted_url \<Rightarrow>
             (case run_actor be (TWITTER_REPLIES_SCRAPER_ACTOR_ID cfg)
                     (replies_input formatted_url limit)
                     ''Failed to execute replies scraper for URL ''
                     ''Failed to retrieve reply dataset items for URL ''
                     (net_say INFO ''Using formatted URL for replies: ''
                        (net_say INFO ''Fetching up to '' s)) of
                (Inl e, s2) \<Rightarrow> (Inl e, s2)
              | (Inr [], s2) \<Rightarrow> (Inr [], net_say WARNING ''No reply data found for URL: '' s2)
              | (Inr (r # rs), s2) \<Rightarrow>
                  (case log_reply_keys True (r # rs) (net_say INFO ''Successfully fetched '' s2) of
                     (Inl e, s3) \<Rightarrow>
                       (Inl (ScrapingError ''Unexpected error fetching tweet replies from URL ''), s3)
                   | (Inr u, s3) \<Rightarrow> (Inr (r # rs), s3)))))"

definition fetch_tweet_and_replies ::
  "config \<Rightarrow> 'r backend \<Rightarrow> string \<Rightarrow> int \<Rightarrow> 'r net \<Rightarrow> (error + pyval) \<times> 'r net" where
  "fetch_tweet_and_replies cfg be url reply_limit s =
     (case fetch_tweet cfg be url s of
        (Inl e, s1) \<Rightarrow> (Inl e, s1)
      | (Inr tweet, s1) \<Rightarrow>
          (case fetch_tweet_replies cfg be url reply_limit s1 of
             (Inl e, s2) \<Rightarrow> (Inl e, s2)
           | (Inr rs, s2) \<Rightarrow>
               (Inr (PDict [(''tweet'', tweet), (''replies'', PList rs)]), s2)))"

section \<open>The persistence layer: \<open>video_downloader.py\<close>\<close>

subsection \<open>The thread as the parser hands it over\<close>

text \<open>
  \<open>save_parsed_thread_data\<close> reads its argument with \<open>.get\<close>: a key may be missing.
  An identifier or URL is \<open>None\<close> when its key is missing; a missing list of videos or
  replies is the empty list, and a missing text is \<open>PNone\<close>, as \<open>.get\<close> returns them.
\<close>

record video_info =
  video_url :: "string option"
  tweet_id :: "string option"

record reply_info =
  reply_id :: "string option"
  reply_text_content :: pyval
  reply_videos :: "video_info list"

record parsed_data =
  user_screen_name :: "string option"
  thread_id :: "string option"
  thread_text_content :: pyval
  thread_videos :: "video_info list"
  replies :: "reply_info list"

subsection \<open>The operating system and the media engine\<close>

text \<open>
  The file system, \<open>json.dump\<close> and yt-dlp are external collaborators. \<open>'fs\<close> is the
  state of the file system, and an \<open>os\<close> gives the calls that the module makes on it.
  A call that changes the file system returns whether it raised, and the file system
  it leaves behind. The media engine is given the logger of the module
  (\<^verbatim>\<open>'logger': logger\<close> in its options, line 169): its call returns the records that
  reach that logger while it runs, too.
\<close>

record 'fs os =
  os_path_exists :: "'fs \<Rightarrow> string \<Rightarrow> bool"
  os_path_getsize :: "'fs \<Rightarrow> string \<Rightarrow> nat"
  os_makedirs :: "string \<Rightarrow> 'fs \<Rightarrow> bool \<times> 'fs"
  json_dump :: "pyval \<Rightarrow> string \<Rightarrow> 'fs \<Rightarrow> bool \<times> 'fs"
  ydl_download :: "string \<Rightarrow> string \<Rightarrow> 'fs \<Rightarrow> bool \<times> 'fs \<times> (log_level \<times> string) list"

text \<open>
  The calls made on the collaborators that change the file system, as a fake
  collaborator would record them: \<open>os.makedirs(path)\<close>, opening \<open>path\<close> for
  \<open>json.dump\<close>, and \<open>ydl.download([url])\<close> with the output template \<open>path\<close>.
\<close>

datatype fs_op = MakeDirs string | WriteJson string | Download string string

record 'fs world =
  disk :: 'fs
  trace :: "fs_op list"
  fs_log :: "(log_level \<times> string) list"

definition say :: "log_level \<Rightarrow> string \<Rightarrow> 'fs world \<Rightarrow> 'fs world" where
  "say lvl msg w = w\<lparr>fs_log := fs_log w @ [(lvl, msg)]\<rparr>"

definition attempt :: "fs_op \<Rightarrow> 'fs world \<Rightarrow> 'fs world" where
  "attempt opn w = w\<lparr>trace := trace w @ [opn]\<rparr>"

text \<open>The records that the media engine hands to the logger join the log.\<close>

definition engine_says :: "(log_level \<times> string) list \<Rightarrow> 'fs world \<Rightarrow> 'fs world" where
  "engine_says recs w = w\<lparr>fs_log := fs_log w @ recs\<rparr>"

subsection \<open>Paths\<close>

text \<open>\<open>os.path.join\<close> and \<open>os.path.dirname\<close> of \<open>posixpath\<close>.\<close>

definition join2 :: "string \<Rightarrow> string \<Rightarrow> string" where
  "join2 a b =
     (if take 1 b = ''/'' then b
      else if a = [] then b
      else if last a = CHR ''/'' then a @ b
      else a @ ''/'' @ b)"

definition os_path_join :: "string \<Rightarrow> string list \<Rightarrow> string" where
  "os_path_join a ps = foldl join2 a ps"

definition os_path_dirname :: "string \<Rightarrow> string" where
  "os_path_dirname p =
     (if list_all (\<lambda>c. c = CHR ''/'') (rev (dropWhile (\<lambda>c. c \<noteq> CHR ''/'') (rev p)))
      then rev (dropWhile (\<lambda>c. c \<noteq> CHR ''/'') (rev p))
      else rev (dropWhile (\<lambda>c. c = CHR ''/'') (dropWhile (\<lambda>c. c \<noteq> CHR ''/'') (rev p))))"

subsection \<open>\<open>_ensure_dir_exists\<close>, \<open>_save_json_content\<close>, \<open>download_video_content\<close>\<close>

definition ensure_dir_exists ::
  "'fs os \<Rightarrow> string \<Rightarrow> 'fs world \<Rightarrow> (error + unit) \<times> 'fs world" where
  "ensure_dir_exists sys dir_path w =
     (if os_path_exists sys (disk w) dir_path then (Inr (), w)
      else
        (case os_makedirs sys dir_path (disk w) of
           (True, d) \<Rightarrow>
             (Inl (VideoDownloadError ''Failed to create directory ''),
              (attempt (MakeDirs dir_path) w)\<lparr>disk := d\<rparr>)
         | (False, d) \<Rightarrow>
             (Inr (), say DEBUG ''Created directory: ''
                        ((attempt (MakeDirs dir_path) w)\<lparr>disk := d\<rparr>))))"

definition save_json_content ::
  "'fs os \<Rightarrow> pyval \<Rightarrow> string \<Rightarrow> 'fs world \<Rightarrow> (error + unit) \<times> 'fs world" where
  "save_json_content sys data file_path w =
     (if \<not> py_truthy data then (Inl (ValidationError ''No data provided to save''), w)
      else if file_path = [] then (Inl (ValidationError ''No file path provided''), w)
      else
        (case ensure_dir_exists sys (os_path_dirname file_path) w of
           (Inl e, w1) \<Rightarrow> (Inl e, w1)
         | (Inr u, w1) \<Rightarrow>
             (case json_dump sys data file_path (disk w1) of
                (True, d) \<Rightarrow>
                  (Inl (VideoDownloadError ''Error saving JSON content to ''),
                   (attempt (WriteJson file_path) w1)\<lparr>disk := d\<rparr>)
              | (False, d) \<Rightarrow>
                  (Inr (), say INFO ''Successfully saved JSON content to ''
                             ((attempt (WriteJson file_path) w1)\<lparr>disk := d\<rparr>)))))"

text \<open>
  \<open>download_video_content\<close> with \<open>list_formats=False\<close>. \<open>ydl_download\<close> stands for
  the \<open>with\<close> block of lines 173 to 193: the inspection of the selected format
  (\<open>extract_info(download=False)\<close>), whose exceptions are swallowed and which only
  feeds the logger, and \<open>ydl.download([video_url])\<close>. What the block hands to the
  logger, the engine's own records among it, joins the log whether the download raises
  or not.
\<close>

definition download_video_content ::
  "'fs os \<Rightarrow> string \<Rightarrow> string \<Rightarrow> string \<Rightarrow> 'fs world \<Rightarrow> (error + string) \<times> 'fs world" where
  "download_video_content sys url video_id output_dir w =
     (if url = [] then (Inl (ValidationError ''Video URL must be a non-empty string''), w)
      else if video_id = [] then (Inl (ValidationError ''Video ID must be a non-empty string''), w)
      else if output_dir = []
        then (Inl (ValidationError ''Output directory must be a non-empty string''), w)
      else
        (case ensure_dir_exists sys output_dir w of
           (Inl e, w1) \<Rightarrow> (Inl e, w1)
         | (Inr u, w1) \<Rightarrow>
             (case ydl_download sys url (os_path_join output_dir [video_id @ ''.mp4''])
                     (disk w1) of
                (True, d, recs) \<Rightarrow>
                  (Inl (VideoDownloadError ''yt-dlp download failed for ''),
                   engine_says recs
                     ((attempt (Download url (os_path_join output_dir [video_id @ ''.mp4'']))
                         (say INFO ''Downloading video from '' w1))\<lparr>disk := d\<rparr>))
              | (False, d, recs) \<Rightarrow>
                  (if os_path_exists sys d (os_path_join output_dir [video_id @ ''.mp4''])
                      \<and> 0 < os_path_getsize sys d (os_path_join output_dir [video_id @ ''.mp4''])
                   then
                     (Inr (os_path_join output_dir [video_id @ ''.mp4'']),
                      say INFO ''Successfully downloaded video to ''
                        (engine_says recs
                           ((attempt
                               (Download url (os_path_join output_dir [video_id @ ''.mp4'']))
                               (say INFO ''Downloading video from '' w1))\<lparr>disk := d\<rparr>)))
                   else if os_path_exists sys d
                             (os_path_join output_dir [video_id @ ''.mp4''] @ ''.part'')
                   then
                     (Inl (VideoDownloadError ''Partial download file found: ''),
                      engine_says recs
                        ((attempt (Download url (os_path_join output_dir [video_id @ ''.mp4'']))
                            (say INFO ''Downloading video from '' w1))\<lparr>disk := d\<rparr>))
                   else
                     (Inl (VideoDownloadError
                             ''Video file not found or empty after download attempt: ''),
                      engine_says recs
                        ((attempt (Download url (os_path_join output_dir [video_id @ ''.mp4'']))
                            (say INFO ''Downloading video from '' w1))\<lparr>disk := d\<rparr>))))))"

subsection \<open>\<open>save_parsed_thread_data\<close>\<close>

text \<open>
  The two loops over videos (lines 259 to 269 and 295 to 305) differ in the name of
  the file, \<open>thread_id\<close> for the thread and \<open>video_info.get("tweet_id", reply_id)\<close> for a
  reply, and in the message they log. \<open>download_videos\<close> is the loop with both as
  parameters. A \<open>VideoDownloadError\<close> is caught and logged, a \<open>ValidationError\<close> is not
  caught.
\<close>

fun download_videos ::
  "'fs os \<Rightarrow> (video_info \<Rightarrow> string) \<Rightarrow> string \<Rightarrow> string \<Rightarrow> video_info list \<Rightarrow> string list
     \<Rightarrow> 'fs world \<Rightarrow> (error + string list) \<times> 'fs world" where
  "download_videos sys name_of msg videos_path [] saved_files w = (Inr saved_files, w)"
| "download_videos sys name_of msg videos_path (vi # vis) saved_files w =
     (case video_url vi of
        None \<Rightarrow> download_videos sys name_of msg videos_path vis saved_files w
      | Some url \<Rightarrow>
          if url = [] then download_videos sys name_of msg videos_path vis saved_files w
          else if name_of vi = [] then download_videos sys name_of msg videos_path vis saved_files w
          else
            (case download_video_content sys url (name_of vi) videos_path w of
               (Inr downloaded_path, w1) \<Rightarrow>
                 download_videos sys name_of msg videos_path vis
                   (saved_files @ [downloaded_path]) w1
             | (Inl (VideoDownloadError m), w1) \<Rightarrow>
                 download_videos sys name_of msg videos_path vis saved_files (say ERROR msg w1)
             | (Inl e, w1) \<Rightarrow> (Inl e, w1)))"

definition reply_video_name :: "string \<Rightarrow> video_info \<Rightarrow> string" where
  "reply_video_name rid vi = (case tweet_id vi of None \<Rightarrow> rid | Some t \<Rightarrow> t)"

text \<open>Step 3a, lines 284 to 291.\<close>

definition save_reply_text ::
  "'fs os \<Rightarrow> reply_info \<Rightarrow> string \<Rightarrow> string list \<Rightarrow> 'fs world
     \<Rightarrow> (error + string list) \<times> 'fs world" where
  "save_reply_text sys reply current_reply_path saved_files w =
     (if py_truthy (reply_text_content reply) then
        (case save_json_content sys (reply_text_content reply)
                (os_path_join current_reply_path [''reply_text.json'']) w of
           (Inr u, w1) \<Rightarrow>
             (Inr (saved_files @ [os_path_join current_reply_path [''reply_text.json'']]), w1)
         | (Inl (VideoDownloadError m), w1) \<Rightarrow>
             (Inr saved_files, say ERROR ''Failed to save reply text: '' w1)
         | (Inl e, w1) \<Rightarrow> (Inl e, w1))
      else (Inr saved_files, w))"

text \<open>
  One iteration of the loop over the replies, lines 274 to 305: \<open>persist_reply\<close> is
  the body for a reply whose identifier \<open>rid\<close> is not empty.
\<close>

definition persist_reply ::
  "'fs os \<Rightarrow> string \<Rightarrow> reply_info \<Rightarrow> string \<Rightarrow> string list \<Rightarrow> 'fs world
     \<Rightarrow> (error + string list) \<times> 'fs world" where
  "persist_reply sys replies_base_path reply rid saved_files w =
     (case ensure_dir_exists sys (os_path_join replies_base_path [rid]) w of
        (Inl e, w1) \<Rightarrow> (Inl e, w1)
      | (Inr u, w1) \<Rightarrow>
          (case save_reply_text sys reply (os_path_join replies_base_path [rid])
                  saved_files w1 of
             (Inl e, w2) \<Rightarrow> (Inl e, w2)
           | (Inr saved2, w2) \<Rightarrow>
               download_videos sys (reply_video_name rid)
                 ''Failed to download reply video: ''
                 (os_path_join (os_path_join replies_base_path [rid]) [''videos''])
                 (reply_videos reply) saved2 w2))"

definition process_reply ::
  "'fs os \<Rightarrow> string \<Rightarrow> reply_info \<Rightarrow> string list \<Rightarrow> 'fs world
     \<Rightarrow> (error + string list) \<times> 'fs world" where
  "process_reply sys replies_base_path reply saved_files w =
     (case reply_id reply of
        None \<Rightarrow> (Inr saved_files, say WARNING ''Skipping reply due to missing ID: '' w)
      | Some rid \<Rightarrow>
          if rid = []
          then (Inr saved_files, say WARNING ''Skipping reply due to missing ID: '' w)
          else persist_reply sys replies_base_path reply rid saved_files w)"

fun process_replies ::
  "'fs os \<Rightarrow> string \<Rightarrow> reply_info list \<Rightarrow> string list \<Rightarrow> 'fs world
     \<Rightarrow> (error + string list) \<times> 'fs world" where
  "process_replies sys replies_base_path [] saved_files w = (Inr saved_files, w)"
| "process_replies sys replies_base_path (reply # rs) saved_files w =
     (case process_reply sys replies_base_path reply saved_files w of
        (Inl e, w1) \<Rightarrow> (Inl e, w1)
      | (Inr saved1, w1) \<Rightarrow> process_replies sys replies_base_path rs saved1 w1)"

text \<open>Step 1, lines 251 to 255: nothing catches a failure here.\<close>

definition save_thread_text ::
  "'fs os \<Rightarrow> parsed_data \<Rightarrow> string \<Rightarrow> 'fs world \<Rightarrow> (error + string list) \<times> 'fs world" where
  "save_thread_text sys pd thread_path w =
     (if py_truthy (thread_text_content pd) then
        (case save_json_content sys (thread_text_content pd)
                (os_path_join thread_path [''thread_text.json'']) w of
           (Inl e, w1) \<Rightarrow> (Inl e, w1)
         | (Inr u, w1) \<Rightarrow> (Inr [os_path_join thread_path [''thread_text.json'']], w1))
      else (Inr [], w))"

definition screen_name :: "parsed_data \<Rightarrow> string" where
  "screen_name pd = (case user_screen_name pd of None \<Rightarrow> ''unknown_user'' | Some u \<Rightarrow> u)"

definition thread_name :: "parsed_data \<Rightarrow> string" where
  "thread_name pd = (case thread_id pd of None \<Rightarrow> ''unknown_thread'' | Some t \<Rightarrow> t)"

text \<open>\<open>thread_path\<close>, line 245.\<close>

definition thread_path_of :: "string \<Rightarrow> parsed_data \<Rightarrow> string" where
  "thread_path_of base_output_dir pd =
     os_path_join base_output_dir [screen_name pd, thread_name pd]"

text \<open>
  \<open>save_parsed_thread_data\<close>. The argument is \<open>None\<close> for a falsy \<open>parsed_data\<close> (\<open>None\<close>
  or the empty dictionary). The function returns \<open>saved_files\<close>.
\<close>

definition save_parsed_thread_data ::
  "'fs os \<Rightarrow> parsed_data option \<Rightarrow> string \<Rightarrow> 'fs world
     \<Rightarrow> (error + string list) \<times> 'fs world" where
  "save_parsed_thread_data sys parsed base_output_dir w =
     (case parsed of
        None \<Rightarrow> (Inl (ValidationError ''No parsed data provided to save''), w)
      | Some pd \<Rightarrow>
          (case ensure_dir_exists sys
                  (thread_path_of base_output_dir pd) w of
             (Inl e, w1) \<Rightarrow> (Inl e, w1)
           | (Inr u, w1) \<Rightarrow>
               (case save_thread_text sys pd
                       (thread_path_of base_output_dir pd) w1 of
                  (Inl e, w2) \<Rightarrow> (Inl e, w2)
                | (Inr saved1, w2) \<Rightarrow>
                    (case download_videos sys (\<lambda>vi. thread_name pd)
                            ''Failed to download thread video: ''
                            (os_path_join (thread_path_of base_output_dir pd) [''videos''])
                            (thread_videos pd) saved1 w2 of
                       (Inl e, w3) \<Rightarrow> (Inl e, w3)
                     | (Inr saved2, w3) \<Rightarrow>
                         (case process_replies sys
                                 (os_path_join (thread_path_of base_output_dir pd) [''replies''])
                                 (replies pd) saved2 w3 of
                            (Inl e, w4) \<Rightarrow> (Inl e, w4)
                          | (Inr saved3, w4) \<Rightarrow>
                              (Inr saved3,
                               say INFO ''Finished processing and saving data for thread ''
                                 w4))))))"

section \<open>Notions used in the statements\<close>

subsection \<open>Variants\<close>

fun is_list :: "pyval \<Rightarrow> bool" where
  "is_list (PList xs) = True"
| "is_list v = False"

text \<open>
  A variant as the data model has it: the bitrate is an integer, or missing. Its
  bitrate is then that integer, and 0 when it is missing.
\<close>

definition int_bitrate :: "pydict \<Rightarrow> bool" where
  "int_bitrate v =
     (case map_of v ''bitrate'' of None \<Rightarrow> True | Some (PInt n) \<Rightarrow> True | Some u \<Rightarrow> False)"

definition bitrate_of :: "pydict \<Rightarrow> int" where
  "bitrate_of v = (case map_of v ''bitrate'' of Some (PInt n) \<Rightarrow> n | _ \<Rightarrow> 0)"

text \<open>
  The variants that compete: the preferred-container ones when there are any, all of
  them otherwise. \<open>top_url\<close> holds of the URLs of the competing variants of maximum bitrate.
\<close>

definition candidates :: "string \<Rightarrow> pydict list \<Rightarrow> pydict list" where
  "candidates type_key vs =
     (if filter (is_mp4 type_key) vs \<noteq> [] then filter (is_mp4 type_key) vs else vs)"

definition top_url :: "string \<Rightarrow> string \<Rightarrow> pydict list \<Rightarrow> pyval \<Rightarrow> bool" where
  "top_url type_key url_key vs u =
     (\<exists>v \<in> set (candidates type_key vs).
        (\<forall>w \<in> set (candidates type_key vs). bitrate_of w \<le> bitrate_of v)
        \<and> dict_get v url_key PNone = u)"

text \<open>
  A media entry of the secondary shape that carries no variants: a record that is no
  video, or a video without \<open>video_info\<close>, or a video whose \<open>video_info\<close> is a record
  without variants or with an empty container of them.
\<close>

definition no_variants :: "pyval \<Rightarrow> bool" where
  "no_variants media =
     (case media of
        PDict m \<Rightarrow>
          (if dict_get m ''type'' PNone = PStr ''video'' then
             (case map_of m ''video_info'' of
                None \<Rightarrow> True
              | Some (PDict vi) \<Rightarrow>
                  (case map_of vi ''variants'' of
                     None \<Rightarrow> True
                   | Some c \<Rightarrow> c = PList [] \<or> c = PStr [] \<or> c = PDict [])
              | Some v \<Rightarrow> False)
           else True)
      | v \<Rightarrow> False)"

text \<open>
  A record whose primary shape gives nothing to select from: it has no \<open>video\<close>, or a
  falsy one, or one that is a record without variants or with an empty container of
  them.
\<close>

definition primary_empty :: "pydict \<Rightarrow> bool" where
  "primary_empty td =
     (case map_of td ''video'' of
        None \<Rightarrow> True
      | Some (PDict vd) \<Rightarrow>
          (case map_of vd ''variants'' of
             None \<Rightarrow> True
           | Some c \<Rightarrow> c = PList [] \<or> c = PStr [] \<or> c = PDict [])
      | Some v \<Rightarrow> \<not> py_truthy v)"

subsection \<open>Records used as examples\<close>

definition v_low :: pydict where
  "v_low = [(''type'', PStr ''video/mp4''), (''bitrate'', PInt 832000),
            (''src'', PStr ''low.mp4'')]"

definition v_high :: pydict where
  "v_high = [(''type'', PStr ''video/mp4''), (''bitrate'', PInt 2176000),
             (''src'', PStr ''high.mp4'')]"

definition v_hls :: pydict where
  "v_hls = [(''type'', PStr ''application/x-mpegURL''), (''src'', PStr ''list.m3u8'')]"

definition tweet_primary :: pydict where
  "tweet_primary =
     [(''id'', PStr ''1''),
      (''video'', PDict [(''variants'', PList (map PDict [v_hls, v_low, v_high]))])]"

definition m_low :: pydict where
  "m_low = [(''content_type'', PStr ''video/mp4''), (''bitrate'', PInt 832000),
            (''url'', PStr ''low.mp4'')]"

definition m_high :: pydict where
  "m_high = [(''content_type'', PStr ''video/mp4''), (''bitrate'', PInt 2176000),
             (''url'', PStr ''high.mp4'')]"

definition m_hls :: pydict where
  "m_hls = [(''content_type'', PStr ''application/x-mpegURL''), (''url'', PStr ''list.m3u8'')]"

definition media_video :: pydict where
  "media_video =
     [(''type'', PStr ''video''),
      (''video_info'', PDict [(''variants'', PList (map PDict [m_hls, m_low, m_high]))])]"

definition tweet_secondary :: pydict where
  "tweet_secondary = [(''id'', PStr ''1''), (''mediaDetails'', PList [PDict media_video])]"

text \<open>A record whose primary variant list is empty, and which has a secondary shape.\<close>

definition tweet_both :: pydict where
  "tweet_both =
     [(''video'', PDict [(''variants'', PList [])]),
      (''mediaDetails'', PList [PDict media_video])]"

text \<open>Two streaming variants, none in the preferred container, the better one last.\<close>

definition hls_1 :: pydict where
  "hls_1 = [(''type'', PStr ''application/x-mpegURL''), (''bitrate'', PInt 1),
            (''src'', PStr ''a.m3u8'')]"

definition hls_2 :: pydict where
  "hls_2 = [(''type'', PStr ''application/x-mpegURL''), (''bitrate'', PInt 2),
            (''src'', PStr ''b.m3u8'')]"

definition tweet_hls :: "pydict list \<Rightarrow> pyval" where
  "tweet_hls vs = PDict [(''video'', PDict [(''variants'', PList (map PDict vs))])]"

text \<open>A record with a photo before its video in \<open>mediaDetails\<close>.\<close>

definition media_photo :: pydict where
  "media_photo = [(''type'', PStr ''photo''), (''media_url_https'', PStr ''p.jpg'')]"

definition tweet_gallery :: pydict where
  "tweet_gallery =
     [(''id'', PStr ''1''), (''mediaDetails'', PList [PDict media_photo, PDict media_video])]"

text \<open>A preferred-container variant whose bitrate is present and null, next to \<open>v_low\<close>.\<close>

definition v_unknown :: pydict where
  "v_unknown = [(''type'', PStr ''video/mp4''), (''bitrate'', PNone),
                (''src'', PStr ''unknown.mp4'')]"

definition tweet_unknown :: pydict where
  "tweet_unknown = [(''video'', PDict [(''variants'', PList (map PDict [v_unknown, v_low]))])]"







text \<open>Records of the secondary shape with a container that is no list.\<close>

definition media_broken :: pydict where
  "media_broken =
     [(''type'', PStr ''video''), (''video_info'', PDict [(''variants'', PInt 5)])]"

definition tweet_broken :: pydict where
  "tweet_broken = [(''mediaDetails'', PList [PDict media_photo, PDict media_broken])]"

subsection \<open>A backend whose runs yield nothing\<close>

definition cfg0 :: config where
  "cfg0 = \<lparr>TWITTER_SCRAPER_ACTOR_ID = ''tweet-actor'',
            TWITTER_REPLIES_SCRAPER_ACTOR_ID = ''replies-actor''\<rparr>"

definition empty_backend :: "nat backend" where
  "empty_backend = \<lparr>actor_call = (\<lambda>a i. Some 7), list_items = (\<lambda>r. Some [])\<rparr>"

definition net0 :: "nat net" where
  "net0 = \<lparr>calls = [], net_log = []\<rparr>"

subsection \<open>Sub-operations of a thread\<close>

text \<open>
  The calls of the persistence layer that produce files are the writes of texts and
  the downloads; \<open>file_ops\<close> drops the creation of directories from a trace.
\<close>

fun is_makedirs :: "fs_op \<Rightarrow> bool" where
  "is_makedirs (MakeDirs p) = True"
| "is_makedirs opn = False"

fun is_download :: "fs_op \<Rightarrow> bool" where
  "is_download (Download u p) = True"
| "is_download opn = False"


definition file_ops :: "fs_op list \<Rightarrow> fs_op list" where
  "file_ops t = filter (\<lambda>opn. \<not> is_makedirs opn) t"

text \<open>
  The records that the persistence layer logs when it catches the failure of a
  sub-operation (lines 268, 291 and 304), and their number in a log.
\<close>

definition own_failure :: "log_level \<times> string \<Rightarrow> bool" where
  "own_failure e =
     (e = (ERROR, ''Failed to download thread video: '')
      \<or> e = (ERROR, ''Failed to download reply video: '')
      \<or> e = (ERROR, ''Failed to save reply text: ''))"

definition failures_logged :: "(log_level \<times> string) list \<Rightarrow> nat" where
  "failures_logged l = length (filter own_failure l)"















definition has_id :: "reply_info \<Rightarrow> bool" where
  "has_id reply = (case reply_id reply of None \<Rightarrow> False | Some rid \<Rightarrow> rid \<noteq> [])"


subsection \<open>The canonical layout\<close>







subsection \<open>A simulated file system, and threads used as examples\<close>

text \<open>
  The file system maps a path to the size of what is there; a directory has size
  4096. Directories can always be made. Writing fails (leaving nothing) for the paths
  of \<open>unwritable\<close>; the engine raises for the URLs of \<open>raising\<close>, leaves no file for
  the URLs of \<open>dead\<close>, leaves only a partial file for the URLs of \<open>partial\<close>, and leaves
  a file of 1000 bytes otherwise. In the first three cases it hands the logger a record
  of level \<open>ERROR\<close>.
\<close>

definition sim_os ::
  "string list \<Rightarrow> string list \<Rightarrow> string list \<Rightarrow> string list
     \<Rightarrow> (string \<Rightarrow> nat option) os" where
  "sim_os unwritable dead raising partial =
     \<lparr>os_path_exists = (\<lambda>d p. d p \<noteq> None),
      os_path_getsize = (\<lambda>d p. case d p of None \<Rightarrow> 0 | Some n \<Rightarrow> n),
      os_makedirs = (\<lambda>p d. (False, d(p \<mapsto> 4096))),
      json_dump = (\<lambda>data p d. if p \<in> set unwritable then (True, d)
                              else (False, d(p \<mapsto> 2))),
      ydl_download = (\<lambda>u p d. if u \<in> set raising then (True, d, [(ERROR, ''ERROR: '')])
                              else if u \<in> set dead then (False, d, [(ERROR, ''ERROR: '')])
                              else if u \<in> set partial
                                then (False, d(p @ ''.part'' \<mapsto> 500), [(ERROR, ''ERROR: '')])
                              else (False, d(p \<mapsto> 1000), []))\<rparr>"


definition world0 :: "(string \<Rightarrow> nat option) world" where
  "world0 = \<lparr>disk = Map.empty, trace = [], fs_log = []\<rparr>"

definition stale_world :: "(string \<Rightarrow> nat option) world" where
  "stale_world = \<lparr>disk = [''o'' \<mapsto> 4096, ''o/7.mp4'' \<mapsto> 1000], trace = [], fs_log = []\<rparr>"

definition some_text :: pyval where "some_text = PDict [(''text'', PStr ''hi'')]"

definition reply_2 :: reply_info where
  "reply_2 = \<lparr>reply_id = Some ''2'', reply_text_content = some_text,
      reply_videos = [\<lparr>video_url = Some ''v2'', tweet_id = Some ''2''\<rparr>]\<rparr>"

definition reply_3 :: reply_info where
  "reply_3 = \<lparr>reply_id = Some ''3'', reply_text_content = some_text, reply_videos = []\<rparr>"

definition reply_noid :: reply_info where
  "reply_noid = \<lparr>reply_id = None, reply_text_content = some_text,
      reply_videos = [\<lparr>video_url = Some ''v4'', tweet_id = None\<rparr>]\<rparr>"

definition thread_ex :: parsed_data where
  "thread_ex = \<lparr>user_screen_name = Some ''u'', thread_id = Some ''1'', thread_text_content = some_text,
      thread_videos = [\<lparr>video_url = Some ''v1'', tweet_id = Some ''1''\<rparr>],
      replies = [reply_2, reply_3]\<rparr>"

definition thread_noid :: parsed_data where
  "thread_noid = \<lparr>user_screen_name = Some ''u'', thread_id = Some ''1'',
      thread_text_content = PNone, thread_videos = [], replies = [reply_noid]\<rparr>"



text \<open>A reply whose video record carries another identifier than the reply.\<close>

definition reply_alias :: reply_info where
  "reply_alias = \<lparr>reply_id = Some ''2'', reply_text_content = some_text,
      reply_videos = [\<lparr>video_url = Some ''v2'', tweet_id = Some ''9''\<rparr>]\<rparr>"

definition thread_alias :: parsed_data where
  "thread_alias = \<lparr>user_screen_name = Some ''u'', thread_id = Some ''1'', thread_text_content = PNone,
      thread_videos = [], replies = [reply_alias]\<rparr>"

section \<open>Properties of the variant selector\<close>

lemmas selector_defs = extract_video_url_def extract_primary_def extract_media_details_def
  probe_media_def select_variants_def sort_by_bitrate_def is_mp4_def dict_get_def
  wrap_scraping_def sort_reverse_def bitrate_key_def

lemma as_dicts_map: "as_dicts (map PDict vs) = Inr vs"
  by (induction vs) simp_all

lemma select_empty: "select_variants tk uk (PList []) = Inr (None, PList [])"
  by (simp add: select_variants_def)

lemma int_bitrate_key:
  "int_bitrate v \<Longrightarrow> is_num (bitrate_key v) \<and> num_of (bitrate_key v) = bitrate_of v"
  by (auto simp: int_bitrate_def bitrate_key_def bitrate_of_def dict_get_def
      split: option.splits pyval.splits)

text \<open>The head of a list sorted in reverse is an item of the list with a greatest key.\<close>

lemma sort_reverse_head:
  assumes "sort_reverse f xs = b # rest"
  shows "b \<in> set xs \<and> (\<forall>x \<in> set xs. f x \<le> f b)"
proof -
  from assms have eq: "sort_key f (rev xs) = rev rest @ [b]"
    by (metis rev.simps(2) rev_rev_ident sort_reverse_def)
  have "set (sort_key f (rev xs)) = set xs" by simp
  with eq have s: "set xs = insert b (set rest)" by auto
  have "sorted (map f (sort_key f (rev xs)))" by (rule sorted_sort_key)
  with eq have "\<forall>x \<in> set rest. f x \<le> f b"
    by (auto simp: sorted_append)
  with s show ?thesis by auto
qed

lemma sort_reverse_length: "length (sort_reverse f xs) = length xs"
  by (simp add: sort_reverse_def)

lemma sort_reverse_nonempty: "xs \<noteq> [] \<Longrightarrow> sort_reverse f xs \<noteq> []"
  using sort_reverse_length[of f xs] by (metis length_0_conv)

lemma sort_by_bitrate_head:
  assumes "list_all int_bitrate xs" and "xs \<noteq> []"
  shows "\<exists>b rest. sort_by_bitrate xs = Inr (b # rest) \<and> b \<in> set xs
           \<and> (\<forall>x \<in> set xs. bitrate_of x \<le> bitrate_of b)"
proof (cases "length xs \<le> 1")
  case True
  with assms obtain b where "xs = [b]" by (cases xs) auto
  then show ?thesis using True by (simp add: sort_by_bitrate_def)
next
  case False
  from assms(1) have nums: "list_all is_num (map bitrate_key xs)"
    by (simp add: list_all_iff int_bitrate_key)
  let ?f = "\<lambda>x. num_of (bitrate_key x)"
  from assms(2) obtain b rest where br: "sort_reverse ?f xs = b # rest"
    using sort_reverse_nonempty[of xs ?f] by (cases "sort_reverse ?f xs") auto
  from sort_reverse_head[OF br] have h: "b \<in> set xs" "\<forall>x \<in> set xs. ?f x \<le> ?f b" by auto
  have key: "\<forall>x \<in> set xs. ?f x = bitrate_of x"
    using assms(1) by (simp add: list_all_iff int_bitrate_key)
  from h key have "\<forall>x \<in> set xs. bitrate_of x \<le> bitrate_of b" by metis
  with br h(1) False nums show ?thesis by (simp add: sort_by_bitrate_def)
qed

lemma select_variants_top:
  assumes "list_all int_bitrate vs" and "vs \<noteq> []"
  shows "\<exists>u vs'. select_variants tk uk (PList (map PDict vs)) = Inr (Some u, vs')
           \<and> top_url tk uk vs u"
proof (cases "filter (is_mp4 tk) vs = []")
  case True
  from sort_by_bitrate_head[OF assms] obtain b rest where
    s: "sort_by_bitrate vs = Inr (b # rest)"
    and b: "b \<in> set vs" "\<forall>x \<in> set vs. bitrate_of x \<le> bitrate_of b"
    by blast
  from b True have "top_url tk uk vs (dict_get b uk PNone)"
    by (auto simp: top_url_def candidates_def)
  with s True assms(2) show ?thesis
    by (simp add: select_variants_def as_dicts_map)
next
  case False
  let ?m = "filter (is_mp4 tk) vs"
  from assms(1) have "list_all int_bitrate ?m" by (simp add: list_all_iff)
  from sort_by_bitrate_head[OF this False] obtain b rest where
    s: "sort_by_bitrate ?m = Inr (b # rest)"
    and b: "b \<in> set ?m" "\<forall>x \<in> set ?m. bitrate_of x \<le> bitrate_of b"
    by blast
  from b False have "top_url tk uk vs (dict_get b uk PNone)"
    unfolding top_url_def candidates_def by auto
  with s False show ?thesis
    by (simp add: select_variants_def as_dicts_map)
qed

lemma top_url_perm: "set vs' = set vs \<Longrightarrow> top_url tk uk vs' u = top_url tk uk vs u"
  by (simp add: top_url_def candidates_def filter_empty_conv)

lemma primary_top:
  assumes "map_of td ''video'' = Some (PDict vd)"
    and "map_of vd ''variants'' = Some (PList (map PDict vs))"
    and "list_all int_bitrate vs" and "vs \<noteq> []"
  shows "\<exists>u td'. extract_video_url (PDict td) = Inr (u, td') \<and> top_url ''type'' ''src'' vs u"
proof -
  from select_variants_top[OF assms(3,4)] obtain u c where
    s: "select_variants ''type'' ''src'' (PList (map PDict vs)) = Inr (Some u, c)"
    and u: "top_url ''type'' ''src'' vs u" by blast
  from assms(1,2) have ne: "td \<noteq> []" "vd \<noteq> []" by auto
  from s assms(1,2) ne have "\<exists>td'. extract_primary td = Inr (Some u, td')"
    by (simp add: extract_primary_def)
  then obtain td' where "extract_primary td = Inr (Some u, td')" ..
  with ne have "extract_video_url (PDict td) = Inr (u, PDict td')"
    by (simp add: extract_video_url_def wrap_scraping_def)
  with u show ?thesis by auto
qed

subsection \<open>What the two shapes pass over\<close>

lemma select_falsy:
  "c = PList [] \<or> c = PStr [] \<or> c = PDict [] \<Longrightarrow> select_variants tk uk c = Inr (None, c)"
  by (auto simp: select_variants_def)

lemma primary_empty_falls:
  assumes "primary_empty td"
  shows "extract_primary td = Inr (None, td)"
proof (cases "map_of td ''video''")
  case None
  then show ?thesis by (simp add: extract_primary_def)
next
  case (Some video)
  show ?thesis
  proof (cases "py_truthy video")
    case False
    with Some show ?thesis by (simp add: extract_primary_def)
  next
    case True
    with assms Some obtain vd where vd: "video = PDict vd" "vd \<noteq> []"
      by (cases video) (auto simp: primary_empty_def)
    show ?thesis
    proof (cases "map_of vd ''variants''")
      case None
      with Some vd show ?thesis by (simp add: extract_primary_def)
    next
      case c: (Some c)
      with assms Some vd have e: "c = PList [] \<or> c = PStr [] \<or> c = PDict []"
        by (simp add: primary_empty_def)
      have u1: "AList.update ''variants'' c vd = vd" using c by (rule update_triv)
      have u2: "AList.update ''video'' (PDict vd) td = td"
        using Some vd(1) by (simp add: update_triv)
      from Some vd c show ?thesis
        by (simp add: extract_primary_def select_falsy[OF e] u1 u2)
    qed
  qed
qed

lemma probe_no_variants:
  assumes "no_variants media"
  shows "probe_media media = Inr (None, media)"
proof -
  from assms obtain m where m: "media = PDict m" by (cases media) (auto simp: no_variants_def)
  show ?thesis
  proof (cases "dict_get m ''type'' PNone = PStr ''video'' \<and> map_of m ''video_info'' \<noteq> None")
    case False
    with m show ?thesis by (auto simp: probe_media_def)
  next
    case True
    with assms m obtain vi where vi: "map_of m ''video_info'' = Some (PDict vi)"
      and c0: "case map_of vi ''variants'' of
                 None \<Rightarrow> True
               | Some c \<Rightarrow> c = PList [] \<or> c = PStr [] \<or> c = PDict []"
      by (auto simp: no_variants_def split: option.splits pyval.splits)
    show ?thesis
    proof (cases "map_of vi ''variants''")
      case None
      with True m vi show ?thesis by (simp add: probe_media_def dict_get_def)
    next
      case (Some c)
      with c0 have e: "c = PList [] \<or> c = PStr [] \<or> c = PDict []" by simp
      have u1: "AList.update ''variants'' c vi = vi" using Some by (rule update_triv)
      have u2: "AList.update ''video_info'' (PDict vi) m = m" using vi by (rule update_triv)
      from True m vi Some show ?thesis
        by (simp add: probe_media_def dict_get_def select_falsy[OF e] u1 u2)
    qed
  qed
qed

lemma media_loop_skip:
  "list_all no_variants pre \<Longrightarrow>
     media_loop (pre @ rest) =
       (case media_loop rest of
          Inl e \<Rightarrow> Inl e
        | Inr (r, rest') \<Rightarrow> Inr (r, pre @ rest'))"
  by (induction pre) (auto simp: probe_no_variants split: sum.splits prod.splits)


text \<open>
  The first media entry that is a video with a variant container, after entries that
  carry none, decides the call when the primary shape gives nothing.
\<close>

lemma secondary_reaches:
  assumes "primary_empty td"
    and "map_of td ''mediaDetails'' = Some (PList (pre @ PDict m # post))"
    and "list_all no_variants pre"
    and "map_of m ''type'' = Some (PStr ''video'')"
    and "map_of m ''video_info'' = Some (PDict vi)"
    and "map_of vi ''variants'' = Some c"
  shows "select_variants ''content_type'' ''url'' c = Inl e \<Longrightarrow>
           extract_video_url (PDict td) =
             Inl (ScrapingError ''Unexpected error extracting video URL from tweet data'')"
    and "select_variants ''content_type'' ''url'' c = Inr (Some u, c') \<Longrightarrow>
           \<exists>td'. extract_video_url (PDict td) = Inr (u, td')"
proof -
  from assms(2) have ne: "td \<noteq> []" by auto
  have p: "probe_media (PDict m) =
      (case select_variants ''content_type'' ''url'' c of
         Inl e \<Rightarrow> Inl e
       | Inr (r, c') \<Rightarrow>
           Inr (r, PDict (AList.update ''video_info''
                            (PDict (AList.update ''variants'' c' vi)) m)))"
    using assms(4,5,6) by (simp add: probe_media_def dict_get_def)
  note f = primary_empty_falls[OF assms(1)]
  {
    assume "select_variants ''content_type'' ''url'' c = Inl e"
    with p have "media_loop (PDict m # post) = Inl e" by simp
    then have "media_loop (pre @ PDict m # post) = Inl e"
      by (simp add: media_loop_skip[OF assms(3)])
    with assms(2) have "extract_media_details td = Inl e"
      by (simp add: extract_media_details_def)
    with f ne show "extract_video_url (PDict td) =
             Inl (ScrapingError ''Unexpected error extracting video URL from tweet data'')"
      by (simp add: extract_video_url_def wrap_scraping_def)
  next
    assume "select_variants ''content_type'' ''url'' c = Inr (Some u, c')"
    with p have "\<exists>m'. media_loop (PDict m # post) = Inr (Some u, m' # post)" by simp
    then obtain m' where "media_loop (PDict m # post) = Inr (Some u, m' # post)" ..
    then have "media_loop (pre @ PDict m # post) = Inr (Some u, pre @ m' # post)"
      by (simp add: media_loop_skip[OF assms(3)])
    with assms(2) have "\<exists>td'. extract_media_details td = Inr (u, td')"
      by (simp add: extract_media_details_def)
    with f ne show "\<exists>td'. extract_video_url (PDict td) = Inr (u, td')"
      by (auto simp: extract_video_url_def wrap_scraping_def)
  }
qed

lemma secondary_top:
  assumes "primary_empty td"
    and "map_of td ''mediaDetails'' = Some (PList (pre @ PDict m # post))"
    and "list_all no_variants pre"
    and "map_of m ''type'' = Some (PStr ''video'')"
    and "map_of m ''video_info'' = Some (PDict vi)"
    and "map_of vi ''variants'' = Some (PList (map PDict vs))"
    and "list_all int_bitrate vs" and "vs \<noteq> []"
  shows "\<exists>u td'. extract_video_url (PDict td) = Inr (u, td')
           \<and> top_url ''content_type'' ''url'' vs u"
proof -
  from select_variants_top[OF assms(7,8)] obtain u c where
    s: "select_variants ''content_type'' ''url'' (PList (map PDict vs)) = Inr (Some u, c)"
    and u: "top_url ''content_type'' ''url'' vs u" by blast
  from secondary_reaches(2)[OF assms(1-6) s] u show ?thesis by blast
qed


subsection \<open>The best variant\<close>

text \<open>
  Claim C1, as amended. Let the variants of a record be a non-empty list of variants
  whose bitrates are integers or missing, in any order. The selector returns the URL of
  a variant whose bitrate, read as 0 when it is missing, is the maximum among the
  preferred-container (\<open>video/mp4\<close>) variants when there is one, and among all variants
  otherwise. This holds for the primary shape, and for the secondary shape when the
  primary shape gives nothing: there the variants are those of a media entry that is
  a video, after entries that carry no variants.
\<close>

theorem best_variant_selected:
  assumes "mset vs' = mset vs" and "list_all int_bitrate vs" and "vs \<noteq> []"
  shows "(map_of td ''video'' = Some (PDict vd) \<and>
          map_of vd ''variants'' = Some (PList (map PDict vs')) \<longrightarrow>
            (\<exists>u td'. extract_video_url (PDict td) = Inr (u, td') \<and>
               top_url ''type'' ''src'' vs u))
       \<and> (primary_empty sd \<and>
          map_of sd ''mediaDetails'' = Some (PList (pre @ PDict m # post)) \<and>
          list_all no_variants pre \<and>
          map_of m ''type'' = Some (PStr ''video'') \<and>
          map_of m ''video_info'' = Some (PDict vi) \<and>
          map_of vi ''variants'' = Some (PList (map PDict vs')) \<longrightarrow>
            (\<exists>u sd'. extract_video_url (PDict sd) = Inr (u, sd') \<and>
               top_url ''content_type'' ''url'' vs u))"
proof -
  from assms(1) have eq: "set vs' = set vs" by (rule mset_eq_setD)
  with assms have wf: "list_all int_bitrate vs'" "vs' \<noteq> []"
    by (auto simp: list_all_iff)
  show ?thesis
    using primary_top[OF _ _ wf] secondary_top[OF _ _ _ _ _ _ wf] top_url_perm[OF eq]
    by auto
qed

theorem best_variant_selected_witness:
  "mset [v_hls, v_low, v_high] = mset [v_high, v_hls, v_low]
   \<and> list_all int_bitrate [v_high, v_hls, v_low]
   \<and> top_url ''type'' ''src'' [v_high, v_hls, v_low] (PStr ''high.mp4'')
   \<and> extract_video_url (PDict tweet_primary) = Inr (PStr ''high.mp4'', PDict tweet_primary)
   \<and> primary_empty tweet_gallery \<and> list_all no_variants [PDict media_photo]
   \<and> top_url ''content_type'' ''url'' [m_high, m_hls, m_low] (PStr ''high.mp4'')
   \<and> extract_video_url (PDict tweet_gallery) = Inr (PStr ''high.mp4'', PDict tweet_gallery)"
proof -
  have p1: "mset [v_hls, v_low, v_high] = mset [v_high, v_hls, v_low]" by simp
  have p2: "list_all int_bitrate [v_high, v_hls, v_low]"
    by (simp add: int_bitrate_def v_high_def v_hls_def v_low_def)
  have p3: "[v_high, v_hls, v_low] \<noteq> []" by simp
  have q1: "mset [m_hls, m_low, m_high] = mset [m_high, m_hls, m_low]" by simp
  have q2: "list_all int_bitrate [m_high, m_hls, m_low]"
    by (simp add: int_bitrate_def m_high_def m_hls_def m_low_def)
  have q3: "[m_high, m_hls, m_low] \<noteq> []" by simp
  have h1: "map_of tweet_primary ''video'' =
      Some (PDict [(''variants'', PList (map PDict [v_hls, v_low, v_high]))])"
    by (simp add: tweet_primary_def)
  have h2: "map_of [(''variants'', PList (map PDict [v_hls, v_low, v_high]))] ''variants'' =
      Some (PList (map PDict [v_hls, v_low, v_high]))"
    by simp
  have g1: "primary_empty tweet_gallery" by (simp add: primary_empty_def tweet_gallery_def)
  have g2: "map_of tweet_gallery ''mediaDetails'' =
      Some (PList ([PDict media_photo] @ PDict media_video # []))"
    by (simp add: tweet_gallery_def)
  have g3: "list_all no_variants [PDict media_photo]"
    by (simp add: no_variants_def media_photo_def dict_get_def)
  have g4: "map_of media_video ''type'' = Some (PStr ''video'')" by (simp add: media_video_def)
  have g5: "map_of media_video ''video_info'' =
      Some (PDict [(''variants'', PList (map PDict [m_hls, m_low, m_high]))])"
    by (simp add: media_video_def)
  have g6: "map_of [(''variants'', PList (map PDict [m_hls, m_low, m_high]))] ''variants'' =
      Some (PList (map PDict [m_hls, m_low, m_high]))"
    by simp
  have e1: "extract_video_url (PDict tweet_primary) =
      Inr (PStr ''high.mp4'', PDict tweet_primary)"
    by (simp add: selector_defs tweet_primary_def v_high_def v_hls_def v_low_def)
  have e2: "extract_video_url (PDict tweet_gallery) =
      Inr (PStr ''high.mp4'', PDict tweet_gallery)"
    by (simp add: selector_defs tweet_gallery_def media_photo_def media_video_def m_high_def
        m_hls_def m_low_def)
  from best_variant_selected[OF p1 p2 p3] h1 h2
  have r1: "\<exists>u td'. extract_video_url (PDict tweet_primary) = Inr (u, td') \<and>
               top_url ''type'' ''src'' [v_high, v_hls, v_low] u" by blast
  from best_variant_selected[OF q1 q2 q3] g1 g2 g3 g4 g5 g6
  have r2: "\<exists>u td'. extract_video_url (PDict tweet_gallery) = Inr (u, td') \<and>
               top_url ''content_type'' ''url'' [m_high, m_hls, m_low] u" by blast
  from r1 e1 have t1: "top_url ''type'' ''src'' [v_high, v_hls, v_low] (PStr ''high.mp4'')"
    by auto
  from r2 e2 have t2: "top_url ''content_type'' ''url'' [m_high, m_hls, m_low] (PStr ''high.mp4'')"
    by auto
  from p1 p2 t1 e1 g1 g3 t2 e2 show ?thesis by blast
qed

text \<open>
  The claim as stated fails: only a missing bitrate is read as 0. A bitrate that is
  present and null is the key of its variant in the sort, and the comparison with the
  integer bitrate of another variant raises; the selector raises for the record instead
  of returning the URL of the variant of bitrate 832000.
\<close>

theorem unknown_bitrate_counterexample:
  "extract_video_url (PDict tweet_unknown) =
     Inl (ScrapingError ''Unexpected error extracting video URL from tweet data'')"
  by (simp add: selector_defs tweet_unknown_def v_unknown_def v_low_def)

subsection \<open>Malformed input\<close>

lemma select_nonlist_raises:
  assumes "\<not> is_list c" and "c \<noteq> PStr []" and "c \<noteq> PDict []"
  shows "\<exists>e. select_variants tk uk c = Inl e"
proof (cases c)
  case (PStr s)
  with assms obtain a as where "s = a # as" by (cases s) auto
  with PStr show ?thesis by (simp add: select_variants_def)
next
  case (PDict kvs)
  with assms obtain a as where "kvs = a # as" by (cases kvs) auto
  with PDict show ?thesis by (simp add: select_variants_def)
qed (use assms in \<open>simp_all add: select_variants_def\<close>)

lemma media_nonlist_raises:
  assumes "map_of td ''mediaDetails'' = Some c"
    and "\<not> is_list c" and "c \<noteq> PStr []" and "c \<noteq> PDict []"
  shows "\<exists>e. extract_media_details td = Inl e"
proof (cases c)
  case (PStr s)
  with assms obtain a as where "s = a # as" by (cases s) auto
  with PStr assms(1) show ?thesis by (simp add: extract_media_details_def probe_media_def)
next
  case (PDict kvs)
  with assms obtain a as where "kvs = a # as" by (cases kvs) auto
  with PDict assms(1) show ?thesis by (simp add: extract_media_details_def probe_media_def)
qed (use assms in \<open>simp_all add: extract_media_details_def\<close>)

text \<open>
  Claim C4, as amended. An input that is not a non-empty record makes the selector
  raise the \<open>ScrapingError\<close> for invalid data. A variant container that is not a list
  makes it raise a \<open>ScrapingError\<close> too (the wrapped unexpected error), unless the
  container is the empty string or the empty record: this holds for the container of
  the primary shape, and, when the primary shape gives nothing, for the container of
  a video among the media entries, after entries that carry no variants, and for a
  \<open>mediaDetails\<close> that is itself no list.
\<close>

theorem malformed_input_raises:
  "(\<not> (is_dict x \<and> py_truthy x) \<longrightarrow>
      extract_video_url x =
        Inl (ScrapingError ''Invalid tweet data provided for video extraction''))
   \<and> (map_of td ''video'' = Some (PDict vd) \<and> map_of vd ''variants'' = Some c
        \<and> \<not> is_list c \<and> c \<noteq> PStr [] \<and> c \<noteq> PDict [] \<longrightarrow>
      extract_video_url (PDict td) =
        Inl (ScrapingError ''Unexpected error extracting video URL from tweet data''))
   \<and> (primary_empty sd \<and> map_of sd ''mediaDetails'' = Some (PList (pre @ PDict m # post))
        \<and> list_all no_variants pre \<and> map_of m ''type'' = Some (PStr ''video'')
        \<and> map_of m ''video_info'' = Some (PDict vi) \<and> map_of vi ''variants'' = Some sc
        \<and> \<not> is_list sc \<and> sc \<noteq> PStr [] \<and> sc \<noteq> PDict [] \<longrightarrow>
      extract_video_url (PDict sd) =
        Inl (ScrapingError ''Unexpected error extracting video URL from tweet data''))
   \<and> (primary_empty md \<and> map_of md ''mediaDetails'' = Some mc
        \<and> \<not> is_list mc \<and> mc \<noteq> PStr [] \<and> mc \<noteq> PDict [] \<longrightarrow>
      extract_video_url (PDict md) =
        Inl (ScrapingError ''Unexpected error extracting video URL from tweet data''))"
proof (intro conjI impI)
  assume "\<not> (is_dict x \<and> py_truthy x)"
  then show "extract_video_url x =
      Inl (ScrapingError ''Invalid tweet data provided for video extraction'')"
    by (cases x) (simp_all add: extract_video_url_def)
next
  assume a: "map_of td ''video'' = Some (PDict vd) \<and> map_of vd ''variants'' = Some c
        \<and> \<not> is_list c \<and> c \<noteq> PStr [] \<and> c \<noteq> PDict []"
  then have td: "td \<noteq> []" and vd: "vd \<noteq> []" by auto
  from a obtain e where "select_variants ''type'' ''src'' c = Inl e"
    using select_nonlist_raises by blast
  with a vd have "extract_primary td = Inl e"
    by (simp add: extract_primary_def)
  with td show "extract_video_url (PDict td) =
        Inl (ScrapingError ''Unexpected error extracting video URL from tweet data'')"
    by (simp add: extract_video_url_def wrap_scraping_def)
next
  assume a: "primary_empty sd \<and> map_of sd ''mediaDetails'' = Some (PList (pre @ PDict m # post))
        \<and> list_all no_variants pre \<and> map_of m ''type'' = Some (PStr ''video'')
        \<and> map_of m ''video_info'' = Some (PDict vi) \<and> map_of vi ''variants'' = Some sc
        \<and> \<not> is_list sc \<and> sc \<noteq> PStr [] \<and> sc \<noteq> PDict []"
  then obtain e where e: "select_variants ''content_type'' ''url'' sc = Inl e"
    using select_nonlist_raises by blast
  from a have "primary_empty sd"
    "map_of sd ''mediaDetails'' = Some (PList (pre @ PDict m # post))"
    "list_all no_variants pre" "map_of m ''type'' = Some (PStr ''video'')"
    "map_of m ''video_info'' = Some (PDict vi)" "map_of vi ''variants'' = Some sc"
    by simp_all
  from secondary_reaches(1)[OF this e]
  show "extract_video_url (PDict sd) =
        Inl (ScrapingError ''Unexpected error extracting video URL from tweet data'')" .
next
  assume a: "primary_empty md \<and> map_of md ''mediaDetails'' = Some mc
        \<and> \<not> is_list mc \<and> mc \<noteq> PStr [] \<and> mc \<noteq> PDict []"
  then have ne: "md \<noteq> []" by auto
  from a obtain e where "extract_media_details md = Inl e"
    using media_nonlist_raises by blast
  with a ne primary_empty_falls[of md]
  show "extract_video_url (PDict md) =
        Inl (ScrapingError ''Unexpected error extracting video URL from tweet data'')"
    by (simp add: extract_video_url_def wrap_scraping_def)
qed

theorem malformed_input_raises_witness:
  "extract_video_url (PList [PStr ''a'']) =
      Inl (ScrapingError ''Invalid tweet data provided for video extraction'')
   \<and> extract_video_url (PDict []) =
      Inl (ScrapingError ''Invalid tweet data provided for video extraction'')
   \<and> extract_video_url (PDict [(''video'', PDict [(''variants'', PInt 5)])]) =
      Inl (ScrapingError ''Unexpected error extracting video URL from tweet data'')
   \<and> extract_video_url (PDict [(''video'', PDict [(''variants'', PStr ''abc'')])]) =
      Inl (ScrapingError ''Unexpected error extracting video URL from tweet data'')
   \<and> primary_empty tweet_broken \<and> list_all no_variants [PDict media_photo]
   \<and> extract_video_url (PDict tweet_broken) =
      Inl (ScrapingError ''Unexpected error extracting video URL from tweet data'')
   \<and> primary_empty [(''mediaDetails'', PStr ''abc'')]
   \<and> extract_video_url (PDict [(''mediaDetails'', PStr ''abc'')]) =
      Inl (ScrapingError ''Unexpected error extracting video URL from tweet data'')"
proof -
  have b1: "primary_empty tweet_broken" by (simp add: primary_empty_def tweet_broken_def)
  have b2: "map_of tweet_broken ''mediaDetails'' =
      Some (PList ([PDict media_photo] @ PDict media_broken # []))"
    by (simp add: tweet_broken_def)
  have b3: "list_all no_variants [PDict media_photo]"
    by (simp add: no_variants_def media_photo_def dict_get_def)
  have b4: "map_of media_broken ''type'' = Some (PStr ''video'')"
    "map_of media_broken ''video_info'' = Some (PDict [(''variants'', PInt 5)])"
    by (simp_all add: media_broken_def)
  have c1: "primary_empty [(''mediaDetails'', PStr ''abc'')]" by (simp add: primary_empty_def)
  show ?thesis
    using malformed_input_raises[where x = "PList [PStr ''a'']"
        and td = "[(''video'', PDict [(''variants'', PInt 5)])]"
        and vd = "[(''variants'', PInt 5)]" and c = "PInt 5"
        and sd = tweet_broken and pre = "[PDict media_photo]" and m = media_broken
        and post = "[]" and vi = "[(''variants'', PInt 5)]" and sc = "PInt 5"
        and md = "[(''mediaDetails'', PStr ''abc'')]" and mc = "PStr ''abc''"]
      malformed_input_raises[where x = "PDict []"
        and td = "[(''video'', PDict [(''variants'', PStr ''abc'')])]"
        and vd = "[(''variants'', PStr ''abc'')]" and c = "PStr ''abc''"
        and sd = tweet_broken and pre = "[PDict media_photo]" and m = media_broken
        and post = "[]" and vi = "[(''variants'', PInt 5)]" and sc = "PInt 5"
        and md = "[(''mediaDetails'', PStr ''abc'')]" and mc = "PStr ''abc''"]
      b1 b2 b3 b4 c1
    by simp
qed

text \<open>
  The claim as stated fails: a record is no list-like structure, but the selector takes
  an empty record as variant container for an empty list and returns the no-video
  result.
\<close>

theorem empty_record_container_counterexample:
  "extract_video_url (PDict [(''video'', PDict [(''variants'', PDict [])])]) =
     Inr (PNone, PDict [(''video'', PDict [(''variants'', PDict [])])])"
  by (simp add: extract_video_url_def extract_primary_def extract_media_details_def
      select_variants_def wrap_scraping_def)

subsection \<open>The input record\<close>

text \<open>
  Claim C9 fails on the code: when no variant is in the preferred container, the
  selector sorts the variant list of its input in place. Here the input lists the
  variant of bitrate 1 before the one of bitrate 2, and the call leaves them swapped.
\<close>

theorem input_variants_reordered:
  "extract_video_url (tweet_hls [hls_1, hls_2]) = Inr (PStr ''b.m3u8'', tweet_hls [hls_2, hls_1])
   \<and> tweet_hls [hls_2, hls_1] \<noteq> tweet_hls [hls_1, hls_2]"
  by (simp add: selector_defs tweet_hls_def hls_1_def hls_2_def)

subsection \<open>An empty primary variant list\<close>




section \<open>Properties of the remote fetch client\<close>

lemma re_search_nonempty: "re_search url = Some tid \<Longrightarrow> url \<noteq> []"
  by (cases url) auto

lemma format_url_example: "format_url ''x.com/u/status/1'' = Inr ''https://x.com/u/status/1''"
  by (simp add: format_url_def)

lemma re_search_example: "re_search ''x.com/u/status/1'' = Some ''1''"
  by (simp add: match_here_def match_status_def is_word_char_def is_digit_def)

text \<open>
  Claim C6. Let a run of the backend yield an empty result set. The root fetch raises
  a \<open>ScrapingError\<close>. The replies fetch returns the empty list, and what it hands to
  the logger ends with a warning and holds nothing above that level.
\<close>

theorem empty_result_set:
  assumes "list_items be run = Some []" and "format_url url = Inr f"
  shows "(re_search url = Some tid \<and>
            actor_call be (TWITTER_SCRAPER_ACTOR_ID cfg) (tweet_input f) = Some run \<longrightarrow>
          fst (fetch_tweet cfg be url s) = Inl (ScrapingError ''No tweet data found for URL: ''))
       \<and> (0 < limit \<and>
            actor_call be (TWITTER_REPLIES_SCRAPER_ACTOR_ID cfg) (replies_input f limit)
              = Some run \<longrightarrow>
          fst (fetch_tweet_replies cfg be url limit s) = Inr [] \<and>
          net_log (snd (fetch_tweet_replies cfg be url limit s)) =
            net_log s @ [(INFO, ''Fetching up to ''),
                         (INFO, ''Using formatted URL for replies: ''),
                         (WARNING, ''No reply data found for URL: '')])"
proof (intro conjI impI)
  assume a: "re_search url = Some tid \<and>
            actor_call be (TWITTER_SCRAPER_ACTOR_ID cfg) (tweet_input f) = Some run"
  then have "url \<noteq> []" using re_search_nonempty by blast
  with a assms show "fst (fetch_tweet cfg be url s) =
      Inl (ScrapingError ''No tweet data found for URL: '')"
    by (simp add: fetch_tweet_def extract_tweet_id_def run_actor_def)
next
  assume a: "0 < limit \<and>
            actor_call be (TWITTER_REPLIES_SCRAPER_ACTOR_ID cfg) (replies_input f limit)
              = Some run"
  with assms show "fst (fetch_tweet_replies cfg be url limit s) = Inr []"
    by (simp add: fetch_tweet_replies_def run_actor_def)
  from a assms show "net_log (snd (fetch_tweet_replies cfg be url limit s)) =
            net_log s @ [(INFO, ''Fetching up to ''),
                         (INFO, ''Using formatted URL for replies: ''),
                         (WARNING, ''No reply data found for URL: '')]"
    by (simp add: fetch_tweet_replies_def run_actor_def net_say_def net_request_def)
qed

theorem empty_result_set_witness:
  "fst (fetch_tweet cfg0 empty_backend ''x.com/u/status/1'' net0) =
     Inl (ScrapingError ''No tweet data found for URL: '')
   \<and> fst (fetch_tweet_replies cfg0 empty_backend ''x.com/u/status/1'' 5 net0) = Inr []
   \<and> net_log (snd (fetch_tweet_replies cfg0 empty_backend ''x.com/u/status/1'' 5 net0)) =
       [(INFO, ''Fetching up to ''), (INFO, ''Using formatted URL for replies: ''),
        (WARNING, ''No reply data found for URL: '')]"
proof -
  have li: "list_items empty_backend 7 = Some []" by (simp add: empty_backend_def)
  have a1: "actor_call empty_backend (TWITTER_SCRAPER_ACTOR_ID cfg0)
      (tweet_input ''https://x.com/u/status/1'') = Some 7"
    by (simp add: empty_backend_def)
  have a2: "actor_call empty_backend (TWITTER_REPLIES_SCRAPER_ACTOR_ID cfg0)
      (replies_input ''https://x.com/u/status/1'' 5) = Some 7"
    by (simp add: empty_backend_def)
  show ?thesis
    using empty_result_set[OF li format_url_example, of "''1''" cfg0 net0 5]
      re_search_example a1 a2
    by (simp add: net0_def)
qed

text \<open>
  Claim C7. A reply limit that is zero or negative makes the replies fetch raise a
  \<open>ValidationError\<close> and leaves the state as it was: no request has gone to the
  backend, and nothing has been logged.
\<close>

theorem nonpositive_limit_rejected:
  "limit \<le> 0 \<Longrightarrow>
     fetch_tweet_replies cfg be url limit s =
       (Inl (ValidationError ''Reply limit must be positive, got: ''), s)"
  by (simp add: fetch_tweet_replies_def)

theorem nonpositive_limit_rejected_witness:
  "fetch_tweet_replies cfg0 empty_backend ''x.com/u/status/1'' (- 3) net0 =
       (Inl (ValidationError ''Reply limit must be positive, got: ''), net0)
    \<and> calls (snd (fetch_tweet_replies cfg0 empty_backend ''x.com/u/status/1'' 0 net0)) = []"
  using nonpositive_limit_rejected[of "- 3" cfg0 empty_backend "''x.com/u/status/1''" net0]
    nonpositive_limit_rejected[of 0 cfg0 empty_backend "''x.com/u/status/1''" net0]
  by (simp add: net0_def)

section \<open>Properties of the persistence layer\<close>

lemmas run_defs = save_parsed_thread_data_def thread_path_of_def ensure_dir_exists_def
  save_thread_text_def save_json_content_def os_path_dirname_def download_video_content_def
  persist_reply_def process_reply_def save_reply_text_def sim_os_def world0_def
  os_path_join_def join2_def attempt_def say_def engine_says_def screen_name_def
  thread_name_def reply_video_name_def

lemma file_ops_append [simp]: "file_ops (a @ b) = file_ops a @ file_ops b"
  by (simp add: file_ops_def)

lemma failures_logged_append [simp]:
  "failures_logged (a @ b) = failures_logged a + failures_logged b"
  by (simp add: failures_logged_def)

lemma failures_logged_Cons [simp]:
  "failures_logged [] = 0"
  "failures_logged (e # l) = (if own_failure e then Suc (failures_logged l) else failures_logged l)"
  by (simp_all add: failures_logged_def)



subsection \<open>A single download\<close>

lemma ensure_dir_cases:
  "ensure_dir_exists sys p w = (r, w1) \<Longrightarrow>
     (r = Inr () \<or> r = Inl (VideoDownloadError ''Failed to create directory ''))
     \<and> filter is_download (trace w1) = filter is_download (trace w)"
  by (auto simp: ensure_dir_exists_def attempt_def say_def split: if_splits prod.splits bool.splits)

text \<open>
  Claim C5, as amended. Called with non-empty arguments, \<open>download_video_content\<close>
  returns the output path exactly when the output directory could be ensured, the
  engine returned without raising, and afterwards the output path exists with a size
  above zero. In every other case it raises a \<open>VideoDownloadError\<close>. The engine is
  asked to download once when the directory could be ensured, and not at all
  otherwise: there is no second attempt.
\<close>

theorem download_result:
  assumes "url \<noteq> []" and "video_id \<noteq> []" and "output_dir \<noteq> []"
  shows "(fst (download_video_content sys url video_id output_dir w) =
            Inr (os_path_join output_dir [video_id @ ''.mp4''])
          \<longleftrightarrow>
            \<not> isl (fst (ensure_dir_exists sys output_dir w))
            \<and> \<not> fst (ydl_download sys url (os_path_join output_dir [video_id @ ''.mp4''])
                        (disk (snd (ensure_dir_exists sys output_dir w))))
            \<and> os_path_exists sys (disk (snd (download_video_content sys url video_id output_dir w)))
                 (os_path_join output_dir [video_id @ ''.mp4''])
            \<and> 0 < os_path_getsize sys
                 (disk (snd (download_video_content sys url video_id output_dir w)))
                 (os_path_join output_dir [video_id @ ''.mp4'']))
       \<and> (fst (download_video_content sys url video_id output_dir w) =
            Inr (os_path_join output_dir [video_id @ ''.mp4''])
          \<or> (\<exists>m. fst (download_video_content sys url video_id output_dir w) =
                Inl (VideoDownloadError m)))
       \<and> filter is_download (trace (snd (download_video_content sys url video_id output_dir w))) =
           filter is_download (trace w) @
             (if isl (fst (ensure_dir_exists sys output_dir w)) then []
              else [Download url (os_path_join output_dir [video_id @ ''.mp4''])])"
proof -
  obtain r w1 where e: "ensure_dir_exists sys output_dir w = (r, w1)"
    by (cases "ensure_dir_exists sys output_dir w")
  obtain b d l where y: "ydl_download sys url (os_path_join output_dir [video_id @ ''.mp4'']) (disk w1) = (b, d, l)"
    using prod_cases3 by blast
  from ensure_dir_cases[OF e] have rc: "r = Inr () \<or> r = Inl (VideoDownloadError ''Failed to create directory '')"
    and tr: "filter is_download (trace w1) = filter is_download (trace w)" by auto
  show ?thesis
  proof (cases r)
    case (Inl err)
    with rc e assms show ?thesis
      by (auto simp: download_video_content_def tr)
  next
    case (Inr u)
    with e y assms tr show ?thesis
      by (cases b) (auto simp: download_video_content_def attempt_def say_def engine_says_def)
  qed
qed

theorem download_result_witness:
  "fst (download_video_content (sim_os [] [] [] []) ''u'' ''7'' ''o'' world0) = Inr ''o/7.mp4''
   \<and> fst (download_video_content (sim_os [] [''u''] [] []) ''u'' ''7'' ''o'' world0) =
       Inl (VideoDownloadError ''Video file not found or empty after download attempt: '')
   \<and> fst (download_video_content (sim_os [] [] [] [''u'']) ''u'' ''7'' ''o'' world0) =
       Inl (VideoDownloadError ''Partial download file found: '')
   \<and> trace (snd (download_video_content (sim_os [] [] [] [''u'']) ''u'' ''7'' ''o'' world0)) =
       [MakeDirs ''o'', Download ''u'' ''o/7.mp4'']"
proof -
  let ?sys = "sim_os [] [] [] []"
  have j: "os_path_join ''o'' [''7.mp4''] = ''o/7.mp4''"
    by (simp add: os_path_join_def join2_def)
  have e: "ensure_dir_exists ?sys ''o'' world0 =
      (Inr (), \<lparr>disk = [''o'' \<mapsto> 4096], trace = [MakeDirs ''o''],
                fs_log = [(DEBUG, ''Created directory: '')]\<rparr>)"
    by (simp add: ensure_dir_exists_def sim_os_def world0_def attempt_def say_def)
  have d: "disk (snd (download_video_content ?sys ''u'' ''7'' ''o'' world0)) =
      [''o'' \<mapsto> 4096, ''o/7.mp4'' \<mapsto> 1000]"
    by (simp add: download_video_content_def e j)
      (simp add: sim_os_def attempt_def say_def engine_says_def j)
  have y: "\<not> fst (ydl_download ?sys ''u'' ''o/7.mp4'' [''o'' \<mapsto> 4096])"
    by (simp add: sim_os_def)
  have x: "os_path_exists ?sys [''o'' \<mapsto> 4096, ''o/7.mp4'' \<mapsto> 1000] ''o/7.mp4''"
    "0 < os_path_getsize ?sys [''o'' \<mapsto> 4096, ''o/7.mp4'' \<mapsto> 1000] ''o/7.mp4''"
    by (simp_all add: sim_os_def)
  have a: "fst (download_video_content ?sys ''u'' ''7'' ''o'' world0) = Inr ''o/7.mp4''"
    using download_result[of "''u''" "''7''" "''o''" ?sys world0] y x
    by (simp add: j e d)
  have b: "fst (download_video_content (sim_os [] [''u''] [] []) ''u'' ''7'' ''o'' world0) =
       Inl (VideoDownloadError ''Video file not found or empty after download attempt: '')"
    by (simp add: run_defs)
  have c: "download_video_content (sim_os [] [] [] [''u'']) ''u'' ''7'' ''o'' world0 =
       (Inl (VideoDownloadError ''Partial download file found: ''),
        \<lparr>disk = [''o'' \<mapsto> 4096, ''o/7.mp4.part'' \<mapsto> 500],
         trace = [MakeDirs ''o'', Download ''u'' ''o/7.mp4''],
         fs_log = [(DEBUG, ''Created directory: ''), (INFO, ''Downloading video from ''),
                   (ERROR, ''ERROR: '')]\<rparr>)"
    by (simp add: run_defs)
  from a b c show ?thesis by simp
qed

text \<open>
  The claim as stated fails when the engine raises and a file of an earlier run is
  at the output path: the file exists with a size above zero after the attempt, and
  the call raises.
\<close>

theorem stale_file_counterexample:
  "fst (download_video_content (sim_os [] [] [''u''] []) ''u'' ''7'' ''o'' stale_world) =
      Inl (VideoDownloadError ''yt-dlp download failed for '')
   \<and> os_path_exists (sim_os [] [] [''u''] [])
        (disk (snd (download_video_content (sim_os [] [] [''u''] []) ''u'' ''7'' ''o'' stale_world)))
        ''o/7.mp4''
   \<and> 0 < os_path_getsize (sim_os [] [] [''u''] [])
        (disk (snd (download_video_content (sim_os [] [] [''u''] []) ''u'' ''7'' ''o'' stale_world)))
        ''o/7.mp4''"
  by (simp add: download_video_content_def ensure_dir_exists_def sim_os_def stale_world_def
      os_path_join_def join2_def attempt_def say_def engine_says_def)

subsection \<open>Failures of sub-operations\<close>




















text \<open>
  The statement above leaves the text of the thread out. Nothing catches a failure of
  its write (line 254), unlike the write of the text of a reply (lines 287 to 291): the
  run raises, and no sub-operation of the videos and replies is attempted.
\<close>

lemma root_text_failure_aborts:
  "fst (save_parsed_thread_data (sim_os [''o/u/1/thread_text.json''] [] [] [])
          (Some thread_ex) ''o'' world0) =
     Inl (VideoDownloadError ''Error saving JSON content to '')
   \<and> trace (snd (save_parsed_thread_data (sim_os [''o/u/1/thread_text.json''] [] [] [])
          (Some thread_ex) ''o'' world0)) =
     [MakeDirs ''o/u/1'', WriteJson ''o/u/1/thread_text.json'']"
  by (simp add: run_defs thread_ex_def reply_2_def reply_3_def some_text_def)

subsection \<open>A reply without an identifier\<close>

lemma process_replies_append:
  "process_replies sys rb (xs @ ys) saved w =
     (case process_replies sys rb xs saved w of
        (Inl e, w1) \<Rightarrow> (Inl e, w1)
      | (Inr s1, w1) \<Rightarrow> process_replies sys rb ys s1 w1)"
  by (induction xs arbitrary: saved w) (auto split: prod.splits sum.splits)

text \<open>
  Claim C8, as amended. A reply whose identifier is missing or empty is skipped: once
  the replies before it are processed, the loop logs one warning, and goes on with the
  replies after it from the same file system, the same trace (no directory has been
  made, nothing written or downloaded) and the same list of saved files. The warning
  in the log is the only record of the reply.
\<close>

theorem reply_without_id_skipped:
  assumes "\<not> has_id r"
  shows "process_replies sys rb (pre @ r # post) saved w =
     (case process_replies sys rb pre saved w of
        (Inl e, w1) \<Rightarrow> (Inl e, w1)
      | (Inr s1, w1) \<Rightarrow>
          process_replies sys rb post s1 (say WARNING ''Skipping reply due to missing ID: '' w1))"
proof -
  from assms have "\<And>s v. process_reply sys rb r s v =
      (Inr s, say WARNING ''Skipping reply due to missing ID: '' v)"
    by (auto simp: has_id_def process_reply_def split: option.splits)
  then show ?thesis
    by (simp add: process_replies_append split: prod.splits sum.splits)
qed

lemma run_after_skip:
  "process_replies (sim_os [] [] [] []) ''o/u/1/replies'' [reply_3] []
     (say WARNING ''Skipping reply due to missing ID: '' world0) =
     (Inr [''o/u/1/replies/3/reply_text.json''],
      \<lparr>disk = [''o/u/1/replies/3'' \<mapsto> 4096, ''o/u/1/replies/3/reply_text.json'' \<mapsto> 2],
       trace = [MakeDirs ''o/u/1/replies/3'', WriteJson ''o/u/1/replies/3/reply_text.json''],
       fs_log = [(WARNING, ''Skipping reply due to missing ID: ''),
                 (DEBUG, ''Created directory: ''),
                 (INFO, ''Successfully saved JSON content to '')]\<rparr>)"
  by (simp add: run_defs reply_3_def some_text_def)

theorem reply_without_id_skipped_witness:
  "\<not> has_id reply_noid
   \<and> process_replies (sim_os [] [] [] []) ''o/u/1/replies'' [reply_noid, reply_3] [] world0 =
     (Inr [''o/u/1/replies/3/reply_text.json''],
      \<lparr>disk = [''o/u/1/replies/3'' \<mapsto> 4096, ''o/u/1/replies/3/reply_text.json'' \<mapsto> 2],
       trace = [MakeDirs ''o/u/1/replies/3'', WriteJson ''o/u/1/replies/3/reply_text.json''],
       fs_log = [(WARNING, ''Skipping reply due to missing ID: ''),
                 (DEBUG, ''Created directory: ''),
                 (INFO, ''Successfully saved JSON content to '')]\<rparr>)"
proof -
  have h: "\<not> has_id reply_noid" by (simp add: has_id_def reply_noid_def)
  have "process_replies (sim_os [] [] [] []) ''o/u/1/replies'' ([] @ reply_noid # [reply_3]) []
          world0 =
        process_replies (sim_os [] [] [] []) ''o/u/1/replies'' [reply_3] []
          (say WARNING ''Skipping reply due to missing ID: '' world0)"
    using reply_without_id_skipped[OF h, of "sim_os [] [] [] []" "''o/u/1/replies''" "[]"
        "[reply_3]" "[]" world0]
    by simp
  with h run_after_skip show ?thesis by simp
qed

text \<open>
  The claim as stated fails: the run returns its list of saved files and no entry for
  the skipped reply. Here it returns the empty list, as it does for the same thread
  without the reply; what there is of the reply is a warning in the log.
\<close>

theorem skipped_reply_counterexample:
  "save_parsed_thread_data (sim_os [] [] [] []) (Some thread_noid) ''o'' world0 =
     (Inr [],
      \<lparr>disk = [''o/u/1'' \<mapsto> 4096], trace = [MakeDirs ''o/u/1''],
       fs_log = [(DEBUG, ''Created directory: ''),
                 (WARNING, ''Skipping reply due to missing ID: ''),
                 (INFO, ''Finished processing and saving data for thread '')]\<rparr>)
   \<and> fst (save_parsed_thread_data (sim_os [] [] [] []) (Some (thread_noid\<lparr>replies := []\<rparr>))
            ''o'' world0) = Inr []"
  by (simp add: run_defs thread_noid_def reply_noid_def)

subsection \<open>The paths of the files\<close>




























text \<open>
  The statement above leaves out the video records whose \<open>tweet_id\<close> is not the
  identifier of their reply. The file of a reply's video is named after the \<open>tweet_id\<close>
  of the video record (line 298), where the documentation of the function (line 221)
  and the comment before that line have the identifier of the reply. Here the reply
  \<open>2\<close> has a video record with the \<open>tweet_id\<close> \<open>9\<close>, and the video goes to \<open>9.mp4\<close>.
\<close>

lemma reply_video_named_after_record:
  "save_parsed_thread_data (sim_os [] [] [] []) (Some thread_alias) ''o'' world0 =
     (Inr [''o/u/1/replies/2/reply_text.json'', ''o/u/1/replies/2/videos/9.mp4''],
      \<lparr>disk = [''o/u/1'' \<mapsto> 4096, ''o/u/1/replies/2'' \<mapsto> 4096,
                ''o/u/1/replies/2/reply_text.json'' \<mapsto> 2,
                ''o/u/1/replies/2/videos'' \<mapsto> 4096,
                ''o/u/1/replies/2/videos/9.mp4'' \<mapsto> 1000],
       trace = [MakeDirs ''o/u/1'', MakeDirs ''o/u/1/replies/2'',
                WriteJson ''o/u/1/replies/2/reply_text.json'',
                MakeDirs ''o/u/1/replies/2/videos'',
                Download ''v2'' ''o/u/1/replies/2/videos/9.mp4''],
       fs_log = [(DEBUG, ''Created directory: ''), (DEBUG, ''Created directory: ''),
                 (INFO, ''Successfully saved JSON content to ''),
                 (DEBUG, ''Created directory: ''), (INFO, ''Downloading video from ''),
                 (INFO, ''Successfully downloaded video to ''),
                 (INFO, ''Finished processing and saving data for thread '')]\<rparr>)"
  by (simp add: run_defs thread_alias_def reply_alias_def some_text_def)

end
